theory Spec2Isabelle
  imports Complex_Main
begin

section \<open>The session broker of the BionicPRO auth service\<close>

text \<open>
  A shallow embedding of \<^verbatim>\<open>bionicpro-auth/main.py\<close>. The Redis instance is an explicit
  state that every handler takes and returns; everything the outside world decides during
  a request (the clock, the random identifiers, what the identity provider answers, whether
  the transport fails) is an argument of the handler. Beside the response and the new
  store, a handler returns the list of calls it made to the identity provider.

  Timestamps are Python floats in the source; they are read here as real numbers, so the
  rounding of a float addition is outside the model, but not its failure: adding an
  integer that has no float raises \<^verbatim>\<open>OverflowError\<close>, and the model has that branch.
  The ISO formatting of \<^verbatim>\<open>session_valid_until\<close> is outside the model too: the
  response carries the timestamp that the source formats, where the source can format it.
  The Redis server is taken to be reachable and to accept every command it is sent.
\<close>

subsection \<open>Configuration (config.py)\<close>

record settings =
  keycloak_url :: string
  keycloak_public_url :: string
  keycloak_realm :: string
  keycloak_client_id :: string
  keycloak_client_secret :: string
  session_cookie_name :: string
  session_ttl :: int
  access_token_ttl :: int
  frontend_url :: string

definition default_settings :: settings where
  "default_settings =
     \<lparr> keycloak_url = ''http://keycloak:8080'',
       keycloak_public_url = ''http://localhost:8080'',
       keycloak_realm = ''reports-realm'',
       keycloak_client_id = ''reports-frontend'',
       keycloak_client_secret = '''',
       session_cookie_name = ''bionicpro_session'',
       session_ttl = 3600,
       access_token_ttl = 120,
       frontend_url = ''http://localhost:3000'' \<rparr>"

subsection \<open>Token vault\<close>

text \<open>
  \<^verbatim>\<open>encrypt_token\<close> and \<^verbatim>\<open>decrypt_token\<close> call Fernet with the configured key.
  The cipher is a library, so it is a parameter: an encryption function and a decryption
  function that answers \<open>None\<close> where Fernet raises \<^verbatim>\<open>InvalidToken\<close>.
\<close>

record vault =
  encrypt_token :: "string \<Rightarrow> string"
  decrypt_token :: "string \<Rightarrow> string option"

subsection \<open>The libraries around the handlers\<close>

text \<open>
  Two more library functions are parameters. \<^verbatim>\<open>RedirectResponse\<close> does not send the
  URL it is given: it percent-encodes it into the \<^verbatim>\<open>Location\<close> header (\<open>url_quote\<close>).
  \<^verbatim>\<open>datetime.fromtimestamp\<close> raises outside the dates that the platform and its time
  zone can represent (\<open>fromtimestamp_ok\<close> says where it returns).
\<close>

record platform =
  url_quote :: "string \<Rightarrow> string"
  fromtimestamp_ok :: "real \<Rightarrow> bool"

subsection \<open>Float plus integer\<close>

text \<open>
  \<^verbatim>\<open>x + n\<close> with a float \<open>x\<close> and an integer \<open>n\<close> first converts \<open>n\<close> to a float, and
  that raises \<^verbatim>\<open>OverflowError\<close> when \<open>n\<close> rounds to a magnitude of \<open>2 ^ 1024\<close>: from
  \<open>2 ^ 1024 - 2 ^ 970\<close> on.
\<close>

datatype exn =
    HTTPException nat string
  | Transport_error
  | Invalid_token
  | Key_error string
  | Overflow_error
  | Value_error

definition int_to_float_overflows :: "int \<Rightarrow> bool" where
  "int_to_float_overflows n = (\<bar>n\<bar> \<ge> 2 ^ 1024 - 2 ^ 970)"

definition float_add_int :: "real \<Rightarrow> int \<Rightarrow> exn + real" where
  "float_add_int x n =
     (if int_to_float_overflows n then Inl Overflow_error else Inr (x + real_of_int n))"

subsection \<open>Session records and the Redis store\<close>

record session =
  access_token :: string
  refresh_token :: string
  access_token_expires_at :: real
  created_at :: real
  user_info :: "string option"

text \<open>
  The two key families \<^verbatim>\<open>session:<id>\<close> and \<^verbatim>\<open>pkce:<state>\<close> are two maps. Each
  entry keeps the time-to-live that \<^verbatim>\<open>setex\<close> was given beside the value.
\<close>

record redis =
  sessions :: "string \<rightharpoonup> (int \<times> session)"
  pkce :: "string \<rightharpoonup> (int \<times> string)"

definition empty_redis :: redis where
  "empty_redis = \<lparr> sessions = Map.empty, pkce = Map.empty \<rparr>"

definition store_session :: "settings \<Rightarrow> redis \<Rightarrow> string \<Rightarrow> session \<Rightarrow> redis" where
  "store_session cfg st session_id data =
     st\<lparr> sessions := (sessions st)(session_id \<mapsto> (session_ttl cfg, data)) \<rparr>"

definition get_session :: "redis \<Rightarrow> string \<Rightarrow> session option" where
  "get_session st session_id = map_option snd (sessions st session_id)"

definition delete_session :: "redis \<Rightarrow> string \<Rightarrow> redis" where
  "delete_session st session_id = st\<lparr> sessions := (sessions st)(session_id := None) \<rparr>"

subsection \<open>Requests and responses\<close>

record request =
  cookies :: "string \<rightharpoonup> string"

record cookie =
  ck_key :: string
  ck_value :: string
  ck_httponly :: bool
  ck_secure :: bool
  ck_samesite :: string
  ck_max_age :: int

datatype cookie_op = No_cookie | Set_cookie cookie | Delete_cookie string

text \<open>
  The bodies the handlers produce: a redirect (the \<^verbatim>\<open>Location\<close> header that is sent),
  the JSON of \<^verbatim>\<open>/auth/session\<close> (authenticated flag and the timestamp behind
  \<^verbatim>\<open>session_valid_until\<close>), the JSON of \<^verbatim>\<open>/auth/validate\<close>, a raised
  \<^verbatim>\<open>HTTPException\<close> (status and detail), and the 500 that the framework answers when
  any other exception leaves the handler.
\<close>

datatype content =
    Redirect string
  | Session_status bool real
  | Access_token_body string
  | Http_exception nat string
  | Internal_server_error

record response =
  content :: content
  set_cookie :: cookie_op

definition plain :: "content \<Rightarrow> response" where
  "plain c = \<lparr> content = c, set_cookie = No_cookie \<rparr>"

definition redirect_response :: "platform \<Rightarrow> string \<Rightarrow> response" where
  "redirect_response P url = plain (Redirect (url_quote P url))"

definition set_session_cookie :: "settings \<Rightarrow> response \<Rightarrow> string \<Rightarrow> response" where
  "set_session_cookie cfg resp session_id =
     resp\<lparr> set_cookie := Set_cookie
       \<lparr> ck_key = session_cookie_name cfg, ck_value = session_id, ck_httponly = True,
         ck_secure = True, ck_samesite = ''lax'', ck_max_age = session_ttl cfg \<rparr> \<rparr>"

definition get_session_id_from_request :: "settings \<Rightarrow> request \<Rightarrow> string option" where
  "get_session_id_from_request cfg req = cookies req (session_cookie_name cfg)"

subsection \<open>Identity provider client\<close>

text \<open>
  The JSON object of the token endpoint: the handlers index \<^verbatim>\<open>access_token\<close> and
  \<^verbatim>\<open>refresh_token\<close> (a missing key raises \<^verbatim>\<open>KeyError\<close>) and read
  \<^verbatim>\<open>expires_in\<close>, an integer number of seconds, with a default.
\<close>

record token_response =
  tr_access_token :: "string option"
  tr_refresh_token :: "string option"
  tr_expires_in :: "int option"

definition get_expires_in :: "settings \<Rightarrow> token_response \<Rightarrow> int" where
  "get_expires_in cfg tokens =
     (case tr_expires_in tokens of None \<Rightarrow> access_token_ttl cfg | Some e \<Rightarrow> e)"

text \<open>What a POST to the provider comes back with: a status code and a body, or a
  transport failure (connection error, timeout), which httpx raises as an exception.
  The client functions below take that result where the source takes the arguments of
  the request; the handler that calls them records the request in its list of calls.\<close>

datatype 'a http_result = Http_response nat 'a | Transport_failure

datatype upstream_call =
    Exchange_code string string string
  | Refresh_grant string
  | Logout_post string

definition get_keycloak_token :: "token_response http_result \<Rightarrow> exn + token_response" where
  "get_keycloak_token reply =
     (case reply of
        Transport_failure \<Rightarrow> Inl Transport_error
      | Http_response status_code body \<Rightarrow>
          if status_code \<noteq> 200 then Inl (HTTPException 401 ''Token exchange failed'')
          else Inr body)"

definition refresh_access_token :: "token_response http_result \<Rightarrow> exn + token_response" where
  "refresh_access_token reply =
     (case reply of
        Transport_failure \<Rightarrow> Inl Transport_error
      | Http_response status_code body \<Rightarrow>
          if status_code \<noteq> 200 then Inl (HTTPException 401 ''Token refresh failed'')
          else Inr body)"

text \<open>An exception that leaves a handler: the framework turns an \<^verbatim>\<open>HTTPException\<close>
  into its status and detail, anything else into a 500.\<close>

definition raise_exn :: "exn \<Rightarrow> response" where
  "raise_exn e =
     (case e of
        HTTPException status_code detail \<Rightarrow> plain (Http_exception status_code detail)
      | _ \<Rightarrow> plain Internal_server_error)"

type_synonym outcome = "response \<times> redis \<times> upstream_call list"

subsection \<open>Login\<close>

text \<open>
  \<^verbatim>\<open>login\<close> draws a verifier and a state at random (arguments here), stores the
  verifier under the state for 300 seconds and redirects to the provider. The S256
  challenge is SHA-256 and base64url from the Python library: a parameter.
\<close>

definition redirect_uri :: string where
  "redirect_uri = ''http://localhost:8001/auth/callback''"

definition auth_url :: "settings \<Rightarrow> string \<Rightarrow> string \<Rightarrow> string" where
  "auth_url cfg state code_challenge =
     keycloak_public_url cfg @ ''/realms/'' @ keycloak_realm cfg
       @ ''/protocol/openid-connect/auth''
       @ ''?client_id='' @ keycloak_client_id cfg
       @ ''&redirect_uri='' @ redirect_uri
       @ ''&response_type=code''
       @ ''&scope=openid profile email''
       @ ''&state='' @ state
       @ ''&code_challenge='' @ code_challenge
       @ ''&code_challenge_method=S256''"

definition login ::
  "platform \<Rightarrow> settings \<Rightarrow> (string \<Rightarrow> string) \<Rightarrow> redis \<Rightarrow> string \<Rightarrow> string \<Rightarrow> outcome" where
  "login P cfg generate_pkce_challenge st code_verifier state =
     (let code_challenge = generate_pkce_challenge code_verifier;
          st1 = st\<lparr> pkce := (pkce st)(state \<mapsto> (300, code_verifier)) \<rparr>
      in (redirect_response P (auth_url cfg state code_challenge), st1, []))"

subsection \<open>Callback\<close>

text \<open>
  \<^verbatim>\<open>callback\<close> reads the verifier (\<^verbatim>\<open>if not code_verifier\<close> refuses a missing key and
  an empty string), deletes the binding, exchanges the code and stores a new session.
  \<open>session_id\<close> is the identifier \<^verbatim>\<open>generate_session_id()\<close> draws; \<open>t1\<close> and \<open>t2\<close>
  are the two readings of \<^verbatim>\<open>time.time()\<close>, in the order the dictionary literal makes
  them. Nothing in the handler catches an exception: a transport failure, a missing
  token and an \<^verbatim>\<open>expires_in\<close> that has no float all end in a 500, after the binding was
  deleted.
\<close>

definition callback ::
  "platform \<Rightarrow> settings \<Rightarrow> vault \<Rightarrow> redis \<Rightarrow> string \<Rightarrow> string \<Rightarrow>
   token_response http_result \<Rightarrow> string \<Rightarrow> real \<Rightarrow> real \<Rightarrow> outcome" where
  "callback P cfg V st code state reply session_id t1 t2 =
     (case map_option snd (pkce st state) of
        None \<Rightarrow> (plain (Http_exception 400 ''Invalid or expired state''), st, [])
      | Some code_verifier \<Rightarrow>
          if code_verifier = [] then
            (plain (Http_exception 400 ''Invalid or expired state''), st, [])
          else
            let st1 = st\<lparr> pkce := (pkce st)(state := None) \<rparr>;
                calls = [Exchange_code code code_verifier redirect_uri]
            in (case get_keycloak_token reply of
                  Inl e \<Rightarrow> (raise_exn e, st1, calls)
                | Inr tokens \<Rightarrow>
                    (case tr_access_token tokens of
                       None \<Rightarrow> (raise_exn (Key_error ''access_token''), st1, calls)
                     | Some atok \<Rightarrow>
                         (case tr_refresh_token tokens of
                            None \<Rightarrow> (raise_exn (Key_error ''refresh_token''), st1, calls)
                          | Some rtok \<Rightarrow>
                              (case float_add_int t1 (get_expires_in cfg tokens) of
                                 Inl e \<Rightarrow> (raise_exn e, st1, calls)
                               | Inr expires_at \<Rightarrow>
                                   let session_data =
                                         \<lparr> access_token = encrypt_token V atok,
                                           refresh_token = encrypt_token V rtok,
                                           access_token_expires_at = expires_at,
                                           created_at = t2,
                                           user_info = None \<rparr>;
                                       st2 = store_session cfg st1 session_id session_data
                                   in (set_session_cookie cfg
                                         (redirect_response P (frontend_url cfg)) session_id,
                                       st2, calls))))))"

subsection \<open>Logout\<close>

text \<open>
  The POST to the provider's logout endpoint sits in \<^verbatim>\<open>try ... except Exception: pass\<close>:
  \<open>post_logout\<close> is what the try block comes to (\<open>Inl\<close> when an exception was caught),
  and the handler goes on the same way in both cases.
\<close>

definition post_logout ::
  "vault \<Rightarrow> session \<Rightarrow> unit http_result \<Rightarrow> (exn + unit) \<times> upstream_call list" where
  "post_logout V session reply =
     (case decrypt_token V (refresh_token session) of
        None \<Rightarrow> (Inl Invalid_token, [])
      | Some rtok \<Rightarrow>
          (case reply of
             Transport_failure \<Rightarrow> (Inl Transport_error, [Logout_post rtok])
           | Http_response status_code body \<Rightarrow> (Inr (), [Logout_post rtok])))"

definition logout ::
  "platform \<Rightarrow> settings \<Rightarrow> vault \<Rightarrow> redis \<Rightarrow> request \<Rightarrow> unit http_result \<Rightarrow> outcome" where
  "logout P cfg V st req reply =
     (let resp = (redirect_response P (frontend_url cfg))
                   \<lparr> set_cookie := Delete_cookie (session_cookie_name cfg) \<rparr>
      in case get_session_id_from_request cfg req of
           None \<Rightarrow> (resp, st, [])
         | Some session_id \<Rightarrow>
             if session_id = [] then (resp, st, [])
             else
               let calls = (case get_session st session_id of
                              None \<Rightarrow> []
                            | Some session \<Rightarrow>
                                (case post_logout V session reply of
                                   (Inl e, cs) \<Rightarrow> cs
                                 | (Inr u, cs) \<Rightarrow> cs))
               in (resp, delete_session st session_id, calls))"

subsection \<open>The refresh block shared by Session-Info and Validate\<close>

text \<open>
  Lines 297 to 302 and 342 to 347 of the source are the same statements: decrypt the
  stored refresh token, call the provider, replace the two encrypted tokens and the
  deadline. \<open>refresh_block\<close> is that try body up to the last assignment: \<open>Inl\<close> is the
  exception that \<^verbatim>\<open>except Exception\<close> catches, \<open>Inr\<close> the updated record.
  \<open>replace_tokens\<close> is the three assignments; the third adds the float
  \<^verbatim>\<open>current_time\<close> and the integer \<^verbatim>\<open>expires_in\<close>.
\<close>

definition replace_tokens ::
  "settings \<Rightarrow> vault \<Rightarrow> session \<Rightarrow> real \<Rightarrow> token_response \<Rightarrow> exn + session" where
  "replace_tokens cfg V session current_time new_tokens =
     (case tr_access_token new_tokens of
        None \<Rightarrow> Inl (Key_error ''access_token'')
      | Some atok \<Rightarrow>
          (case tr_refresh_token new_tokens of
             None \<Rightarrow> Inl (Key_error ''refresh_token'')
           | Some new_rtok \<Rightarrow>
               (case float_add_int current_time (get_expires_in cfg new_tokens) of
                  Inl e \<Rightarrow> Inl e
                | Inr expires_at \<Rightarrow>
                    Inr (session
                      \<lparr> access_token := encrypt_token V atok,
                        refresh_token := encrypt_token V new_rtok,
                        access_token_expires_at := expires_at \<rparr>))))"

text \<open>What the try body does once the POST has come back.\<close>

definition complete_refresh ::
  "settings \<Rightarrow> vault \<Rightarrow> session \<Rightarrow> real \<Rightarrow> token_response http_result \<Rightarrow> exn + session" where
  "complete_refresh cfg V session current_time reply =
     (case refresh_access_token reply of
        Inl e \<Rightarrow> Inl e
      | Inr new_tokens \<Rightarrow> replace_tokens cfg V session current_time new_tokens)"

definition refresh_block ::
  "settings \<Rightarrow> vault \<Rightarrow> session \<Rightarrow> real \<Rightarrow> token_response http_result \<Rightarrow>
   (exn + session) \<times> upstream_call list" where
  "refresh_block cfg V session current_time reply =
     (case decrypt_token V (refresh_token session) of
        None \<Rightarrow> (Inl Invalid_token, [])
      | Some rtok \<Rightarrow>
          (complete_refresh cfg V session current_time reply, [Refresh_grant rtok]))"

subsection \<open>Session-Info\<close>

text \<open>
  Lines 307 to 320: the rotation and the response. The response is built after the
  store was rotated; the sum \<^verbatim>\<open>created_at + session_ttl\<close> and
  \<^verbatim>\<open>datetime.fromtimestamp\<close> can both raise there, which ends in a 500 without a
  cookie.
\<close>

definition rotate_session ::
  "platform \<Rightarrow> settings \<Rightarrow> redis \<Rightarrow> string \<Rightarrow> session \<Rightarrow> string \<Rightarrow> upstream_call list \<Rightarrow>
   outcome" where
  "rotate_session P cfg st session_id session new_session_id calls =
     (let st1 = delete_session st session_id;
          st2 = store_session cfg st1 new_session_id session
      in case float_add_int (created_at session) (session_ttl cfg) of
           Inl e \<Rightarrow> (raise_exn e, st2, calls)
         | Inr valid_until \<Rightarrow>
             if fromtimestamp_ok P valid_until then
               (set_session_cookie cfg (plain (Session_status True valid_until))
                  new_session_id, st2, calls)
             else (raise_exn Value_error, st2, calls))"

definition get_session_info ::
  "platform \<Rightarrow> settings \<Rightarrow> vault \<Rightarrow> redis \<Rightarrow> request \<Rightarrow> real \<Rightarrow>
   token_response http_result \<Rightarrow> string \<Rightarrow> outcome" where
  "get_session_info P cfg V st req current_time reply new_session_id =
     (case get_session_id_from_request cfg req of
        None \<Rightarrow> (plain (Http_exception 401 ''No session''), st, [])
      | Some session_id \<Rightarrow>
          if session_id = [] then (plain (Http_exception 401 ''No session''), st, [])
          else
            (case get_session st session_id of
               None \<Rightarrow> (plain (Http_exception 401 ''Invalid session''), st, [])
             | Some session \<Rightarrow>
                 if current_time \<ge> access_token_expires_at session then
                   (case refresh_block cfg V session current_time reply of
                      (Inl e, calls) \<Rightarrow>
                        (plain (Http_exception 401 ''Session expired''),
                         delete_session st session_id, calls)
                    | (Inr session', calls) \<Rightarrow>
                        rotate_session P cfg st session_id session' new_session_id calls)
                 else rotate_session P cfg st session_id session new_session_id []))"

subsection \<open>Validate\<close>

text \<open>Lines 353 to 356: the access token is decrypted outside the try block, so a
  failure there leaves the handler as an exception.\<close>

definition return_access_token ::
  "vault \<Rightarrow> redis \<Rightarrow> session \<Rightarrow> upstream_call list \<Rightarrow> outcome" where
  "return_access_token V st session calls =
     (case decrypt_token V (access_token session) of
        None \<Rightarrow> (raise_exn Invalid_token, st, calls)
      | Some atok \<Rightarrow> (plain (Access_token_body atok), st, calls))"

definition validate_session ::
  "settings \<Rightarrow> vault \<Rightarrow> redis \<Rightarrow> request \<Rightarrow> real \<Rightarrow> token_response http_result \<Rightarrow> outcome" where
  "validate_session cfg V st req current_time reply =
     (case get_session_id_from_request cfg req of
        None \<Rightarrow> (plain (Http_exception 401 ''No session''), st, [])
      | Some session_id \<Rightarrow>
          if session_id = [] then (plain (Http_exception 401 ''No session''), st, [])
          else
            (case get_session st session_id of
               None \<Rightarrow> (plain (Http_exception 401 ''Invalid session''), st, [])
             | Some session \<Rightarrow>
                 if current_time \<ge> access_token_expires_at session then
                   (case refresh_block cfg V session current_time reply of
                      (Inl e, calls) \<Rightarrow>
                        (plain (Http_exception 401 ''Session expired''),
                         delete_session st session_id, calls)
                    | (Inr session', calls) \<Rightarrow>
                        return_access_token V (store_session cfg st session_id session')
                          session' calls)
                 else return_access_token V st session []))"

subsection \<open>The handlers in steps\<close>

text \<open>
  Requests run concurrently. Within one worker the handlers are coroutines of one event
  loop, which leave the processor at an \<^verbatim>\<open>await\<close>: the POST to the provider. With
  more than one worker on the same Redis, the commands of different requests interleave
  anywhere, and what is atomic is one Redis command. The steps below cut the handlers
  where a claim needs it. \<open>callback_read\<close> is the GET of the binding and the check of
  what it returned (lines 219 to 221), \<open>callback_cleanup\<close> the DELETE (line 224),
  \<open>callback_resume\<close> the handler from the provider's reply on. For Session-Info and
  Validate, \<open>_begin\<close> runs up to the POST (one GET of the session, and one DELETE where
  the refresh token does not decrypt) and either finishes or leaves the local variables
  that are live across the await; \<open>_resume\<close> runs from the reply to the end, on the store
  as it is by then.
\<close>

definition callback_read :: "redis \<Rightarrow> string \<Rightarrow> response + string" where
  "callback_read st state =
     (case map_option snd (pkce st state) of
        None \<Rightarrow> Inl (plain (Http_exception 400 ''Invalid or expired state''))
      | Some code_verifier \<Rightarrow>
          if code_verifier = [] then
            Inl (plain (Http_exception 400 ''Invalid or expired state''))
          else Inr code_verifier)"

definition callback_cleanup :: "redis \<Rightarrow> string \<Rightarrow> redis" where
  "callback_cleanup st state = st\<lparr> pkce := (pkce st)(state := None) \<rparr>"

definition callback_resume ::
  "platform \<Rightarrow> settings \<Rightarrow> vault \<Rightarrow> redis \<Rightarrow> string \<Rightarrow> string \<Rightarrow>
   token_response http_result \<Rightarrow> string \<Rightarrow> real \<Rightarrow> real \<Rightarrow> outcome" where
  "callback_resume P cfg V st code code_verifier reply session_id t1 t2 =
     (let calls = [Exchange_code code code_verifier redirect_uri]
      in case get_keycloak_token reply of
           Inl e \<Rightarrow> (raise_exn e, st, calls)
         | Inr tokens \<Rightarrow>
             (case tr_access_token tokens of
                None \<Rightarrow> (raise_exn (Key_error ''access_token''), st, calls)
              | Some atok \<Rightarrow>
                  (case tr_refresh_token tokens of
                     None \<Rightarrow> (raise_exn (Key_error ''refresh_token''), st, calls)
                   | Some rtok \<Rightarrow>
                       (case float_add_int t1 (get_expires_in cfg tokens) of
                          Inl e \<Rightarrow> (raise_exn e, st, calls)
                        | Inr expires_at \<Rightarrow>
                            let session_data =
                                  \<lparr> access_token = encrypt_token V atok,
                                    refresh_token = encrypt_token V rtok,
                                    access_token_expires_at = expires_at,
                                    created_at = t2,
                                    user_info = None \<rparr>;
                                st2 = store_session cfg st session_id session_data
                            in (set_session_cookie cfg
                                  (redirect_response P (frontend_url cfg)) session_id,
                                st2, calls)))))"

record refresh_wait =
  rw_session_id :: string
  rw_session :: session
  rw_current_time :: real
  rw_refresh_token :: string

definition validate_begin ::
  "settings \<Rightarrow> vault \<Rightarrow> redis \<Rightarrow> request \<Rightarrow> real \<Rightarrow> outcome + refresh_wait" where
  "validate_begin cfg V st req current_time =
     (case get_session_id_from_request cfg req of
        None \<Rightarrow> Inl (plain (Http_exception 401 ''No session''), st, [])
      | Some session_id \<Rightarrow>
          if session_id = [] then Inl (plain (Http_exception 401 ''No session''), st, [])
          else
            (case get_session st session_id of
               None \<Rightarrow> Inl (plain (Http_exception 401 ''Invalid session''), st, [])
             | Some session \<Rightarrow>
                 if current_time \<ge> access_token_expires_at session then
                   (case decrypt_token V (refresh_token session) of
                      None \<Rightarrow>
                        Inl (plain (Http_exception 401 ''Session expired''),
                             delete_session st session_id, [])
                    | Some rtok \<Rightarrow>
                        Inr \<lparr> rw_session_id = session_id, rw_session = session,
                              rw_current_time = current_time, rw_refresh_token = rtok \<rparr>)
                 else Inl (return_access_token V st session [])))"

definition validate_resume ::
  "settings \<Rightarrow> vault \<Rightarrow> redis \<Rightarrow> refresh_wait \<Rightarrow> token_response http_result \<Rightarrow> outcome" where
  "validate_resume cfg V st w reply =
     (let calls = [Refresh_grant (rw_refresh_token w)]
      in case complete_refresh cfg V (rw_session w) (rw_current_time w) reply of
           Inl e \<Rightarrow>
             (plain (Http_exception 401 ''Session expired''),
              delete_session st (rw_session_id w), calls)
         | Inr session' \<Rightarrow>
             return_access_token V (store_session cfg st (rw_session_id w) session')
               session' calls)"

definition session_info_begin ::
  "platform \<Rightarrow> settings \<Rightarrow> vault \<Rightarrow> redis \<Rightarrow> request \<Rightarrow> real \<Rightarrow> string \<Rightarrow>
   outcome + refresh_wait" where
  "session_info_begin P cfg V st req current_time new_session_id =
     (case get_session_id_from_request cfg req of
        None \<Rightarrow> Inl (plain (Http_exception 401 ''No session''), st, [])
      | Some session_id \<Rightarrow>
          if session_id = [] then Inl (plain (Http_exception 401 ''No session''), st, [])
          else
            (case get_session st session_id of
               None \<Rightarrow> Inl (plain (Http_exception 401 ''Invalid session''), st, [])
             | Some session \<Rightarrow>
                 if current_time \<ge> access_token_expires_at session then
                   (case decrypt_token V (refresh_token session) of
                      None \<Rightarrow>
                        Inl (plain (Http_exception 401 ''Session expired''),
                             delete_session st session_id, [])
                    | Some rtok \<Rightarrow>
                        Inr \<lparr> rw_session_id = session_id, rw_session = session,
                              rw_current_time = current_time, rw_refresh_token = rtok \<rparr>)
                 else Inl (rotate_session P cfg st session_id session new_session_id [])))"

definition session_info_resume ::
  "platform \<Rightarrow> settings \<Rightarrow> vault \<Rightarrow> redis \<Rightarrow> refresh_wait \<Rightarrow> token_response http_result \<Rightarrow>
   string \<Rightarrow> outcome" where
  "session_info_resume P cfg V st w reply new_session_id =
     (let calls = [Refresh_grant (rw_refresh_token w)]
      in case complete_refresh cfg V (rw_session w) (rw_current_time w) reply of
           Inl e \<Rightarrow>
             (plain (Http_exception 401 ''Session expired''),
              delete_session st (rw_session_id w), calls)
         | Inr session' \<Rightarrow>
             rotate_session P cfg st (rw_session_id w) session' new_session_id calls)"

subsection \<open>Stores without a raw token\<close>

text \<open>
  Every string in the store, key or value, accounted for: \<open>D\<close> is the set of the random
  values the service drew itself (session identifiers, states, verifiers). The keys
  and the PKCE values are among them; the two token fields of a session record are
  values that \<^verbatim>\<open>encrypt_token\<close> returned, and its \<^verbatim>\<open>user_info\<close> is empty. A token of
  the provider that is neither a ciphertext nor one of the values drawn is then nowhere
  in the store.
\<close>

definition token_free_store :: "vault \<Rightarrow> string set \<Rightarrow> redis \<Rightarrow> bool" where
  "token_free_store V D st =
     ((\<forall>sid ttl s. sessions st sid = Some (ttl, s) \<longrightarrow>
         sid \<in> D \<and>
         access_token s \<in> range (encrypt_token V) \<and>
         refresh_token s \<in> range (encrypt_token V) \<and>
         user_info s = None)
      \<and> (\<forall>state ttl v. pkce st state = Some (ttl, v) \<longrightarrow> state \<in> D \<and> v \<in> D))"

subsection \<open>Reachable stores\<close>

text \<open>
  The stores the service can be in, each with the set of random values drawn on the way
  to it: it starts empty, every handler run moves it (with any request, clock,
  identifiers and provider replies), and Redis drops a key when its time-to-live is
  over. A handler may also run in steps with other requests in between. The second
  step of Session-Info and Validate then runs on a later store with the local variables
  that its first step left on an earlier one; the rules ask only that both stores are
  reachable. The second step of Callback stores nothing it has read. A first step
  that suspends leaves the store as it is, the DELETE of Callback drops a PKCE key and
  the second step of logout drops a session key: the two rules for a dropped key cover
  them.
\<close>

inductive reachable :: "platform \<Rightarrow> settings \<Rightarrow> vault \<Rightarrow> redis \<Rightarrow> string set \<Rightarrow> bool"
  for P :: platform and cfg :: settings and V :: vault where
  start: "reachable P cfg V empty_redis {}"
| after_login:
    "reachable P cfg V st D \<Longrightarrow>
     reachable P cfg V (fst (snd (login P cfg challenge st code_verifier state)))
       (insert state (insert code_verifier D))"
| after_callback:
    "reachable P cfg V st D \<Longrightarrow>
     reachable P cfg V (fst (snd (callback P cfg V st code state reply session_id t1 t2)))
       (insert session_id D)"
| after_logout:
    "reachable P cfg V st D \<Longrightarrow>
     reachable P cfg V (fst (snd (logout P cfg V st req lreply))) D"
| after_session_info:
    "reachable P cfg V st D \<Longrightarrow>
     reachable P cfg V
       (fst (snd (get_session_info P cfg V st req current_time reply new_session_id)))
       (insert new_session_id D)"
| after_validate:
    "reachable P cfg V st D \<Longrightarrow>
     reachable P cfg V (fst (snd (validate_session cfg V st req current_time reply))) D"
| after_callback_resume:
    "reachable P cfg V st D \<Longrightarrow>
     reachable P cfg V
       (fst (snd (callback_resume P cfg V st code code_verifier reply session_id t1 t2)))
       (insert session_id D)"
| after_session_info_resume:
    "reachable P cfg V st0 D0 \<Longrightarrow>
     session_info_begin P cfg V st0 req current_time new_session_id0 = Inr w \<Longrightarrow>
     reachable P cfg V st D \<Longrightarrow>
     reachable P cfg V (fst (snd (session_info_resume P cfg V st w reply new_session_id)))
       (insert new_session_id (D \<union> D0))"
| after_validate_resume:
    "reachable P cfg V st0 D0 \<Longrightarrow>
     validate_begin cfg V st0 req current_time = Inr w \<Longrightarrow>
     reachable P cfg V st D \<Longrightarrow>
     reachable P cfg V (fst (snd (validate_resume cfg V st w reply))) (D \<union> D0)"
| session_key_expired:
    "reachable P cfg V st D \<Longrightarrow> reachable P cfg V (delete_session st session_id) D"
| pkce_key_expired:
    "reachable P cfg V st D \<Longrightarrow> reachable P cfg V (callback_cleanup st state) D"

subsection \<open>A browser that follows its cookie\<close>

text \<open>
  One browser's requests on its session, one after the other: it sends the cookie it
  holds, and takes the new value when a response sets the cookie. \<open>valid_until_seen\<close>
  collects the \<^verbatim>\<open>session_valid_until\<close> of every successful Session-Info.
\<close>

definition request_with :: "settings \<Rightarrow> string \<Rightarrow> request" where
  "request_with cfg sid = \<lparr> cookies = [session_cookie_name cfg \<mapsto> sid] \<rparr>"

datatype browser_step =
    Validate_step real "token_response http_result"
  | Session_info_step real "token_response http_result" string

fun valid_until_seen ::
  "platform \<Rightarrow> settings \<Rightarrow> vault \<Rightarrow> redis \<Rightarrow> string \<Rightarrow> browser_step list \<Rightarrow> real list" where
  "valid_until_seen P cfg V st sid [] = []"
| "valid_until_seen P cfg V st sid (Validate_step t reply # steps) =
     valid_until_seen P cfg V
       (fst (snd (validate_session cfg V st (request_with cfg sid) t reply))) sid steps"
| "valid_until_seen P cfg V st sid (Session_info_step t reply new_sid # steps) =
     (let out = get_session_info P cfg V st (request_with cfg sid) t reply new_sid;
          seen = (case content (fst out) of Session_status a v \<Rightarrow> [v] | _ \<Rightarrow> []);
          sid' = (case set_cookie (fst out) of Set_cookie c \<Rightarrow> ck_value c | _ \<Rightarrow> sid)
      in seen @ valid_until_seen P cfg V (fst (snd out)) sid' steps)"

subsection \<open>A concrete deployment for the examples\<close>

text \<open>A toy cipher that prefixes the token, a quoting that encodes the space, dates up
  to the year 9999, the default settings, one session that expires at time 1120, one
  PKCE binding, and a browser holding the session cookie.\<close>

definition example_vault :: vault where
  "example_vault =
     \<lparr> encrypt_token = (\<lambda>t. ''enc:'' @ t),
       decrypt_token = (\<lambda>c. if take 4 c = ''enc:'' then Some (drop 4 c) else None) \<rparr>"

definition example_platform :: platform where
  "example_platform =
     \<lparr> url_quote = (\<lambda>u. concat (map (\<lambda>c. if c = CHR '' '' then ''%20'' else [c]) u)),
       fromtimestamp_ok = (\<lambda>x. 0 \<le> x \<and> x < 253402300800) \<rparr>"

definition example_session :: session where
  "example_session =
     \<lparr> access_token = ''enc:AT1'', refresh_token = ''enc:RT1'',
       access_token_expires_at = 1120, created_at = 1000, user_info = None \<rparr>"

definition example_redis :: redis where
  "example_redis =
     \<lparr> sessions = [''sid1'' \<mapsto> (3600, example_session)],
       pkce = [''state1'' \<mapsto> (300, ''verifier1'')] \<rparr>"

definition example_request :: request where
  "example_request = \<lparr> cookies = [''bionicpro_session'' \<mapsto> ''sid1''] \<rparr>"

definition example_tokens :: token_response where
  "example_tokens =
     \<lparr> tr_access_token = Some ''AT2'', tr_refresh_token = Some ''RT2'',
       tr_expires_in = Some 120 \<rparr>"

text \<open>The same store with the session's access token, or its refresh token, replaced
  by text that the cipher refuses.\<close>

definition tampered_access_redis :: redis where
  "tampered_access_redis =
     example_redis\<lparr> sessions :=
       [''sid1'' \<mapsto> (3600, example_session\<lparr> access_token := ''tampered'' \<rparr>)] \<rparr>"

definition tampered_refresh_redis :: redis where
  "tampered_refresh_redis =
     example_redis\<lparr> sessions :=
       [''sid1'' \<mapsto> (3600, example_session\<lparr> refresh_token := ''tampered'' \<rparr>)] \<rparr>"

text \<open>What a handler that read the example session at time \<open>t\<close>, after the deadline,
  holds while its refresh call is in flight.\<close>

definition example_wait :: "real \<Rightarrow> refresh_wait" where
  "example_wait t =
     \<lparr> rw_session_id = ''sid1'', rw_session = example_session,
       rw_current_time = t, rw_refresh_token = ''RT1'' \<rparr>"

text \<open>The example session once refreshed with the example tokens at 1120, and a
  provider answer that refuses a refresh token.\<close>

definition example_refreshed_session :: session where
  "example_refreshed_session =
     example_session\<lparr> access_token := ''enc:AT2'', refresh_token := ''enc:RT2'',
                       access_token_expires_at := 1240 \<rparr>"

definition example_rejection :: "token_response http_result" where
  "example_rejection =
     Http_response 400
       \<lparr> tr_access_token = None, tr_refresh_token = None, tr_expires_in = None \<rparr>"

text \<open>The session that a callback at time 2000 makes of the example tokens.\<close>

definition example_new_session :: session where
  "example_new_session =
     \<lparr> access_token = ''enc:AT2'', refresh_token = ''enc:RT2'',
       access_token_expires_at = 2120, created_at = 2000, user_info = None \<rparr>"

text \<open>The store after a login and the callback that answers it, from the empty store.\<close>

definition example_login_redis :: redis where
  "example_login_redis =
     fst (snd (login example_platform default_settings (\<lambda>v. v) empty_redis
       ''verifier1'' ''state1''))"

definition example_callback_redis :: redis where
  "example_callback_redis =
     fst (snd (callback example_platform default_settings example_vault example_login_redis
       ''abc'' ''state1'' (Http_response 200 example_tokens) ''sid1'' 1000 1000))"

section \<open>Properties\<close>

lemmas handler_defs =
  validate_session_def get_session_info_def get_session_id_from_request_def
  get_session_def delete_session_def store_session_def refresh_block_def
  complete_refresh_def refresh_access_token_def replace_tokens_def
  return_access_token_def rotate_session_def plain_def set_session_cookie_def
  raise_exn_def callback_def get_keycloak_token_def logout_def post_logout_def login_def
  redirect_response_def get_expires_in_def float_add_int_def

lemmas split_defs =
  callback_read_def callback_cleanup_def callback_resume_def validate_begin_def
  validate_resume_def session_info_begin_def session_info_resume_def

lemmas example_defs =
  example_vault_def example_session_def example_redis_def example_request_def
  example_tokens_def default_settings_def tampered_access_redis_def
  tampered_refresh_redis_def example_wait_def example_refreshed_session_def
  example_rejection_def example_platform_def example_new_session_def

text \<open>The integers of the examples have a float.\<close>

lemma small_int_has_float: "\<bar>n\<bar> \<le> 2 ^ 64 \<Longrightarrow> \<not> int_to_float_overflows n"
proof -
  have "(2::int) ^ 64 < 2 ^ 1024 - 2 ^ 970"
    by simp
  then show "\<bar>n\<bar> \<le> 2 ^ 64 \<Longrightarrow> \<not> int_to_float_overflows n"
    by (simp add: int_to_float_overflows_def)
qed

lemma example_ints_have_float [simp]:
  "\<not> int_to_float_overflows 120" "\<not> int_to_float_overflows 3600"
  by (simp_all add: small_int_has_float)

subsection \<open>The handlers in steps are the handlers\<close>

lemma callback_split:
  "callback P cfg V st code state reply session_id t1 t2 =
     (case callback_read st state of
        Inl resp \<Rightarrow> (resp, st, [])
      | Inr code_verifier \<Rightarrow>
          callback_resume P cfg V (callback_cleanup st state) code code_verifier reply
            session_id t1 t2)"
  by (simp add: callback_def split_defs Let_def split: option.splits)

lemma validate_split:
  "validate_session cfg V st req current_time reply =
     (case validate_begin cfg V st req current_time of
        Inl out \<Rightarrow> out
      | Inr w \<Rightarrow> validate_resume cfg V st w reply)"
  by (simp add: validate_session_def refresh_block_def split_defs Let_def
           split: option.splits sum.splits)

lemma session_info_split:
  "get_session_info P cfg V st req current_time reply new_session_id =
     (case session_info_begin P cfg V st req current_time new_session_id of
        Inl out \<Rightarrow> out
      | Inr w \<Rightarrow> session_info_resume P cfg V st w reply new_session_id)"
  by (simp add: get_session_info_def refresh_block_def split_defs Let_def
           split: option.splits sum.splits)

subsection \<open>What the blocks of the handlers do\<close>

lemma replace_tokens_Inr:
  assumes "replace_tokens cfg V s current_time tokens = Inr s'"
  shows "\<exists>atok rtok. tr_access_token tokens = Some atok \<and> tr_refresh_token tokens = Some rtok
           \<and> \<not> int_to_float_overflows
                 (case tr_expires_in tokens of None \<Rightarrow> access_token_ttl cfg | Some e \<Rightarrow> e)
           \<and> s' = s\<lparr> access_token := encrypt_token V atok,
                     refresh_token := encrypt_token V rtok,
                     access_token_expires_at :=
                       current_time + real_of_int (case tr_expires_in tokens of
                                                     None \<Rightarrow> access_token_ttl cfg
                                                   | Some e \<Rightarrow> e) \<rparr>"
  using assms
  by (auto simp: replace_tokens_def float_add_int_def get_expires_in_def
           split: option.splits if_splits)

lemma replace_tokens_frame:
  assumes "replace_tokens cfg V s current_time tokens = Inr s'"
  shows "created_at s' = created_at s \<and> user_info s' = user_info s"
  using replace_tokens_Inr [OF assms] by auto

lemma replace_tokens_encrypted:
  assumes "replace_tokens cfg V s current_time tokens = Inr s'"
  shows "access_token s' \<in> range (encrypt_token V) \<and> refresh_token s' \<in> range (encrypt_token V)"
  using replace_tokens_Inr [OF assms] by auto

lemma complete_refresh_Inr:
  assumes "complete_refresh cfg V s current_time reply = Inr s'"
  shows "\<exists>tokens. reply = Http_response 200 tokens
           \<and> replace_tokens cfg V s current_time tokens = Inr s'"
  using assms
  by (auto simp: complete_refresh_def refresh_access_token_def
           split: sum.splits http_result.splits if_splits)

lemma complete_refresh_failure:
  assumes "reply = Transport_failure
            \<or> (\<exists>c b. reply = Http_response c b
                  \<and> (c \<noteq> 200 \<or> tr_access_token b = None \<or> tr_refresh_token b = None
                      \<or> int_to_float_overflows
                           (case tr_expires_in b of
                              None \<Rightarrow> access_token_ttl cfg | Some e \<Rightarrow> e)))"
  shows "\<exists>e. complete_refresh cfg V s current_time reply = Inl e"
  using assms
  by (auto simp: complete_refresh_def refresh_access_token_def replace_tokens_def
        float_add_int_def get_expires_in_def
      split: option.splits)

lemma complete_refresh_success:
  assumes "tr_access_token tokens = Some atok" and "tr_refresh_token tokens = Some rtok"
    and "\<not> int_to_float_overflows
           (case tr_expires_in tokens of None \<Rightarrow> access_token_ttl cfg | Some e \<Rightarrow> e)"
  shows "complete_refresh cfg V s current_time (Http_response 200 tokens)
           = Inr (s\<lparr> access_token := encrypt_token V atok,
                      refresh_token := encrypt_token V rtok,
                      access_token_expires_at :=
                        current_time + real_of_int (case tr_expires_in tokens of
                                                      None \<Rightarrow> access_token_ttl cfg
                                                    | Some e \<Rightarrow> e) \<rparr>)"
  using assms
  by (simp add: complete_refresh_def refresh_access_token_def replace_tokens_def
        float_add_int_def get_expires_in_def)

lemma refresh_block_Inr:
  assumes "refresh_block cfg V s current_time reply = (Inr s', calls)"
  shows "\<exists>tokens rtok. reply = Http_response 200 tokens
           \<and> replace_tokens cfg V s current_time tokens = Inr s'
           \<and> decrypt_token V (refresh_token s) = Some rtok
           \<and> calls = [Refresh_grant rtok]"
  using assms complete_refresh_Inr
  by (fastforce simp: refresh_block_def split: option.splits)

lemma refresh_block_frame:
  assumes "refresh_block cfg V s current_time reply = (Inr s', calls)"
  shows "created_at s' = created_at s \<and> user_info s' = user_info s"
  using refresh_block_Inr [OF assms] replace_tokens_frame by blast

lemma refresh_block_encrypted:
  assumes "refresh_block cfg V s current_time reply = (Inr s', calls)"
  shows "access_token s' \<in> range (encrypt_token V) \<and> refresh_token s' \<in> range (encrypt_token V)"
  using refresh_block_Inr [OF assms] replace_tokens_encrypted by blast

lemma refresh_block_calls:
  "snd (refresh_block cfg V s current_time reply)
     = (case decrypt_token V (refresh_token s) of
          None \<Rightarrow> [] | Some rtok \<Rightarrow> [Refresh_grant rtok])"
  by (simp add: refresh_block_def split: option.splits)

lemma rotate_session_store:
  "fst (snd (rotate_session P cfg st sid s new_sid calls))
     = store_session cfg (delete_session st sid) new_sid s
   \<and> snd (snd (rotate_session P cfg st sid s new_sid calls)) = calls"
  by (simp add: rotate_session_def Let_def raise_exn_def split: sum.splits)

lemma rotate_session_response:
  "fst (rotate_session P cfg st sid s new_sid calls)
     = (if \<not> int_to_float_overflows (session_ttl cfg)
           \<and> fromtimestamp_ok P (created_at s + real_of_int (session_ttl cfg))
        then \<lparr> content = Session_status True (created_at s + real_of_int (session_ttl cfg)),
               set_cookie = Set_cookie
                 \<lparr> ck_key = session_cookie_name cfg, ck_value = new_sid,
                   ck_httponly = True, ck_secure = True, ck_samesite = ''lax'',
                   ck_max_age = session_ttl cfg \<rparr> \<rparr>
        else \<lparr> content = Internal_server_error, set_cookie = No_cookie \<rparr>)"
  by (simp add: rotate_session_def Let_def raise_exn_def float_add_int_def plain_def
        set_session_cookie_def)

lemma return_access_token_store:
  "fst (snd (return_access_token V st s calls)) = st
   \<and> snd (snd (return_access_token V st s calls)) = calls"
  by (simp add: return_access_token_def split: option.splits)

lemma return_access_token_result:
  assumes "return_access_token V st s calls = (resp, st', calls')"
    and "content resp = Access_token_body tok"
  shows "decrypt_token V (access_token s) = Some tok \<and> st' = st \<and> calls' = calls
       \<and> set_cookie resp = No_cookie"
  using assms
  by (auto simp: return_access_token_def raise_exn_def plain_def split: option.splits)

lemma rotate_session_calls:
  assumes "rotate_session P cfg st sid s new_sid calls = (resp, st', calls')"
  shows "calls' = calls"
  using rotate_session_store [of P cfg st sid s new_sid calls] assms by simp

lemma session_info_success:
  assumes "cookies req (session_cookie_name cfg) = Some sid"
    and "get_session_info P cfg V st req current_time reply new_sid = (resp, st', calls)"
    and "content resp = Session_status a v"
  shows "sid \<noteq> [] \<and> (\<exists>s s'. get_session st sid = Some s
           \<and> ((current_time < access_token_expires_at s \<and> s' = s \<and> calls = [])
              \<or> (current_time \<ge> access_token_expires_at s
                  \<and> refresh_block cfg V s current_time reply = (Inr s', calls)))
           \<and> rotate_session P cfg st sid s' new_sid calls = (resp, st', calls))"
proof -
  from assms have "sid \<noteq> [] \<and> (\<exists>s s' cs. get_session st sid = Some s
           \<and> ((current_time < access_token_expires_at s \<and> s' = s \<and> cs = [])
              \<or> (current_time \<ge> access_token_expires_at s
                  \<and> refresh_block cfg V s current_time reply = (Inr s', cs)))
           \<and> rotate_session P cfg st sid s' new_sid cs = (resp, st', calls))"
    by (auto simp: get_session_info_def get_session_id_from_request_def plain_def
             split: option.splits sum.splits if_splits prod.splits)
  then obtain s s' cs where n: "sid \<noteq> []" and s: "get_session st sid = Some s"
    and f: "(current_time < access_token_expires_at s \<and> s' = s \<and> cs = [])
              \<or> (current_time \<ge> access_token_expires_at s
                  \<and> refresh_block cfg V s current_time reply = (Inr s', cs))"
    and r: "rotate_session P cfg st sid s' new_sid cs = (resp, st', calls)"
    by blast
  from rotate_session_calls [OF r] have "calls = cs" .
  with n s f r show ?thesis by blast
qed

lemma validate_success:
  assumes "cookies req (session_cookie_name cfg) = Some sid"
    and "validate_session cfg V st req current_time reply = (resp, st', calls)"
    and "content resp = Access_token_body tok"
  shows "sid \<noteq> [] \<and> (\<exists>s. get_session st sid = Some s
           \<and> ((current_time < access_token_expires_at s
                \<and> return_access_token V st s [] = (resp, st', calls))
              \<or> (current_time \<ge> access_token_expires_at s
                  \<and> (\<exists>s' cs. refresh_block cfg V s current_time reply = (Inr s', cs)
                        \<and> return_access_token V (store_session cfg st sid s') s' cs
                            = (resp, st', calls)))))"
  using assms
  by (auto simp: validate_session_def get_session_id_from_request_def plain_def
           split: option.splits sum.splits if_splits prod.splits)

text \<open>The upstream calls of the two handlers, for a session that the cookie names.\<close>

lemma ensure_fresh_calls:
  assumes "cookies req (session_cookie_name cfg) = Some sid" and "sid \<noteq> []"
    and "sessions st sid = Some (ttl, s)"
  shows "snd (snd (validate_session cfg V st req current_time reply)) =
           (if current_time < access_token_expires_at s then []
            else case decrypt_token V (refresh_token s) of
                   None \<Rightarrow> [] | Some rtok \<Rightarrow> [Refresh_grant rtok])"
    and "snd (snd (get_session_info P cfg V st req current_time reply new_sid)) =
           (if current_time < access_token_expires_at s then []
            else case decrypt_token V (refresh_token s) of
                   None \<Rightarrow> [] | Some rtok \<Rightarrow> [Refresh_grant rtok])"
  using assms
  by (auto simp: validate_session_def get_session_info_def get_session_id_from_request_def
        get_session_def refresh_block_def return_access_token_store rotate_session_store
      split: option.splits sum.splits)

lemma ensure_fresh_before_deadline:
  assumes "cookies req (session_cookie_name cfg) = Some sid" and "sid \<noteq> []"
    and "sessions st sid = Some (ttl, s)" and "current_time < access_token_expires_at s"
  shows "fst (snd (validate_session cfg V st req current_time reply)) = st"
    and "fst (snd (get_session_info P cfg V st req current_time reply new_sid))
           = store_session cfg (delete_session st sid) new_sid s"
  using assms
  by (auto simp: validate_session_def get_session_info_def get_session_id_from_request_def
        get_session_def return_access_token_store rotate_session_store)

subsection \<open>Every handler keeps the store free of raw tokens\<close>

lemma token_free_mono:
  "token_free_store V D st \<Longrightarrow> D \<subseteq> D' \<Longrightarrow> token_free_store V D' st"
  unfolding token_free_store_def by blast

lemma token_free_delete:
  "token_free_store V D st \<Longrightarrow> token_free_store V D (delete_session st sid)"
  by (simp add: token_free_store_def delete_session_def)

lemma token_free_store_session:
  "token_free_store V D st \<Longrightarrow> sid \<in> D
   \<Longrightarrow> access_token s \<in> range (encrypt_token V)
   \<Longrightarrow> refresh_token s \<in> range (encrypt_token V)
   \<Longrightarrow> user_info s = None
   \<Longrightarrow> token_free_store V D (store_session cfg st sid s)"
  by (simp add: token_free_store_def store_session_def)

lemma token_free_cleanup:
  "token_free_store V D st \<Longrightarrow> token_free_store V D (callback_cleanup st state)"
  by (simp add: token_free_store_def callback_cleanup_def)

lemma token_free_get:
  "token_free_store V D st \<Longrightarrow> get_session st sid = Some s
   \<Longrightarrow> sid \<in> D \<and> access_token s \<in> range (encrypt_token V)
       \<and> refresh_token s \<in> range (encrypt_token V) \<and> user_info s = None"
  by (auto simp: token_free_store_def get_session_def)

lemma login_token_free:
  "token_free_store V D st \<Longrightarrow>
   token_free_store V (insert state (insert code_verifier D))
     (fst (snd (login P cfg challenge st code_verifier state)))"
  by (auto simp: login_def Let_def token_free_store_def)

lemma callback_resume_token_free:
  assumes "token_free_store V D st"
  shows "token_free_store V (insert session_id D)
    (fst (snd (callback_resume P cfg V st code code_verifier reply session_id t1 t2)))"
proof -
  from assms have m: "token_free_store V (insert session_id D) st"
    by (rule token_free_mono) blast
  then show ?thesis
    by (auto simp: callback_resume_def Let_def intro!: token_free_store_session
             split: option.splits sum.splits)
qed

lemma callback_token_free:
  assumes "token_free_store V D st"
  shows "token_free_store V (insert session_id D)
    (fst (snd (callback P cfg V st code state reply session_id t1 t2)))"
proof (cases "callback_read st state")
  case (Inl resp)
  with assms show ?thesis
    by (auto simp: callback_split intro: token_free_mono)
next
  case (Inr code_verifier)
  with assms show ?thesis
    by (simp add: callback_split callback_resume_token_free token_free_cleanup)
qed

lemma logout_token_free:
  "token_free_store V D st \<Longrightarrow> token_free_store V D (fst (snd (logout P cfg V st req reply)))"
  by (simp add: logout_def Let_def token_free_delete split: option.splits)

lemma rotate_token_free:
  assumes "token_free_store V D st"
    and "access_token s \<in> range (encrypt_token V)"
    and "refresh_token s \<in> range (encrypt_token V)" and "user_info s = None"
  shows "token_free_store V (insert new_sid D)
    (fst (snd (rotate_session P cfg st sid s new_sid calls)))"
proof -
  from assms(1) have "token_free_store V (insert new_sid D) (delete_session st sid)"
    by (intro token_free_delete) (rule token_free_mono, auto)
  with assms(2-4) show ?thesis
    by (simp add: rotate_session_store token_free_store_session)
qed

lemma session_info_resume_token_free:
  assumes "token_free_store V D st"
    and "user_info (rw_session w) = None"
  shows "token_free_store V (insert new_sid D)
    (fst (snd (session_info_resume P cfg V st w reply new_sid)))"
proof (cases "complete_refresh cfg V (rw_session w) (rw_current_time w) reply")
  case (Inl e)
  with assms show ?thesis
    by (auto simp: session_info_resume_def intro: token_free_delete token_free_mono)
next
  case (Inr s')
  from complete_refresh_Inr [OF this] obtain tokens where
    r: "replace_tokens cfg V (rw_session w) (rw_current_time w) tokens = Inr s'"
    by blast
  from replace_tokens_encrypted [OF r] replace_tokens_frame [OF r] assms Inr show ?thesis
    by (simp add: session_info_resume_def rotate_token_free)
qed

lemma validate_resume_token_free:
  assumes "token_free_store V D st"
    and "user_info (rw_session w) = None" and "rw_session_id w \<in> D"
  shows "token_free_store V D (fst (snd (validate_resume cfg V st w reply)))"
proof (cases "complete_refresh cfg V (rw_session w) (rw_current_time w) reply")
  case (Inl e)
  with assms show ?thesis
    by (simp add: validate_resume_def token_free_delete)
next
  case (Inr s')
  from complete_refresh_Inr [OF this] obtain tokens where
    r: "replace_tokens cfg V (rw_session w) (rw_current_time w) tokens = Inr s'"
    by blast
  from replace_tokens_encrypted [OF r] replace_tokens_frame [OF r] assms Inr show ?thesis
    by (simp add: validate_resume_def return_access_token_store token_free_store_session)
qed

lemma validate_begin_wait:
  assumes "token_free_store V D st" and "validate_begin cfg V st req current_time = Inr w"
  shows "user_info (rw_session w) = None \<and> rw_session_id w \<in> D"
proof -
  from assms(2) have "get_session st (rw_session_id w) = Some (rw_session w)"
    by (auto simp: validate_begin_def split: option.splits if_splits)
  from token_free_get [OF assms(1) this] show ?thesis by simp
qed

lemma session_info_begin_wait:
  assumes "token_free_store V D st"
    and "session_info_begin P cfg V st req current_time new_sid = Inr w"
  shows "user_info (rw_session w) = None \<and> rw_session_id w \<in> D"
proof -
  from assms(2) have "get_session st (rw_session_id w) = Some (rw_session w)"
    by (auto simp: session_info_begin_def split: option.splits if_splits)
  from token_free_get [OF assms(1) this] show ?thesis by simp
qed

lemma validate_token_free:
  assumes "token_free_store V D st"
  shows "token_free_store V D (fst (snd (validate_session cfg V st req current_time reply)))"
proof (cases "validate_begin cfg V st req current_time")
  case (Inl out)
  then have "fst (snd out) = st \<or> (\<exists>sid. fst (snd out) = delete_session st sid)"
    by (auto simp: validate_begin_def return_access_token_store
             split: option.splits if_splits)
  with Inl assms show ?thesis
    by (auto simp: validate_split token_free_delete)
next
  case (Inr w)
  from validate_begin_wait [OF assms Inr] assms Inr show ?thesis
    by (simp add: validate_split validate_resume_token_free)
qed

lemma session_info_token_free:
  assumes "token_free_store V D st"
  shows "token_free_store V (insert new_sid D)
    (fst (snd (get_session_info P cfg V st req current_time reply new_sid)))"
proof (cases "session_info_begin P cfg V st req current_time new_sid")
  case (Inl out)
  then consider (same) "fst (snd out) = st"
    | (del) sid where "fst (snd out) = delete_session st sid"
    | (rot) sid s where "get_session st sid = Some s"
        "out = rotate_session P cfg st sid s new_sid []"
    by (auto simp: session_info_begin_def split: option.splits if_splits)
  then show ?thesis
  proof cases
    case same
    with Inl assms show ?thesis
      by (auto simp: session_info_split intro: token_free_mono)
  next
    case del
    with Inl assms show ?thesis
      by (auto simp: session_info_split intro: token_free_delete token_free_mono)
  next
    case rot
    from token_free_get [OF assms rot(1)] rot(2) Inl assms show ?thesis
      by (simp add: session_info_split rotate_token_free)
  qed
next
  case (Inr w)
  from session_info_begin_wait [OF assms Inr] assms Inr show ?thesis
    by (simp add: session_info_split session_info_resume_token_free)
qed

lemma reachable_token_free: "reachable P cfg V st D \<Longrightarrow> token_free_store V D st"
proof (induction rule: reachable.induct)
  case start
  show ?case by (simp add: token_free_store_def empty_redis_def)
next
  case (after_login st D challenge code_verifier state)
  then show ?case by (simp add: login_token_free)
next
  case (after_callback st D code state reply session_id t1 t2)
  then show ?case by (simp add: callback_token_free)
next
  case (after_logout st D req lreply)
  then show ?case by (simp add: logout_token_free)
next
  case (after_session_info st D req current_time reply new_session_id)
  then show ?case by (simp add: session_info_token_free)
next
  case (after_validate st D req current_time reply)
  then show ?case by (simp add: validate_token_free)
next
  case (after_callback_resume st D code code_verifier reply session_id t1 t2)
  then show ?case by (simp add: callback_resume_token_free)
next
  case (after_session_info_resume st0 D0 req current_time new_session_id0 w st D reply
      new_session_id)
  from session_info_begin_wait [OF after_session_info_resume.IH(1)
      after_session_info_resume.hyps(2)]
  have u: "user_info (rw_session w) = None" by simp
  have "token_free_store V (D \<union> D0) st"
    using after_session_info_resume.IH(2) by (rule token_free_mono) blast
  from session_info_resume_token_free [OF this u] show ?case .
next
  case (after_validate_resume st0 D0 req current_time w st D reply)
  from validate_begin_wait [OF after_validate_resume.IH(1) after_validate_resume.hyps(2)]
  have u: "user_info (rw_session w) = None" and k: "rw_session_id w \<in> D \<union> D0" by simp_all
  have "token_free_store V (D \<union> D0) st"
    using after_validate_resume.IH(2) by (rule token_free_mono) blast
  from validate_resume_token_free [OF this u k] show ?case .
next
  case (session_key_expired st D session_id)
  then show ?case by (simp add: token_free_delete)
next
  case (pkce_key_expired st D state)
  then show ?case by (simp add: token_free_cleanup)
qed

lemma example_callback_reachable:
  "reachable example_platform default_settings example_vault example_callback_redis
     {''sid1'', ''state1'', ''verifier1''}"
  unfolding example_callback_redis_def example_login_redis_def
  by (intro reachable.intros)

lemma example_callback_redis_session:
  "sessions example_callback_redis ''sid1''
     = Some (3600, \<lparr> access_token = ''enc:AT2'', refresh_token = ''enc:RT2'',
                      access_token_expires_at = 1120, created_at = 1000,
                      user_info = None \<rparr>)"
  by (simp add: example_callback_redis_def example_login_redis_def handler_defs example_defs
        empty_redis_def Let_def)

subsection \<open>C1: a failed refresh\<close>

text \<open>
  C1 as stated fails: the session of the example expires at 1120; at 1120 the POST to
  the provider ends in a transport failure, and both Validate and Session-Info leave a
  store in which the session identifier no longer resolves. \<^verbatim>\<open>except Exception\<close> catches
  the transport exception like any other.
\<close>

theorem transport_failure_deletes_session_counterexample:
  "sessions (fst (snd (validate_session default_settings example_vault example_redis
       example_request 1120 Transport_failure))) ''sid1''
     \<noteq> sessions example_redis ''sid1''
   \<and> sessions (fst (snd (get_session_info example_platform default_settings example_vault
       example_redis example_request 1120 Transport_failure ''sid2''))) ''sid1''
     \<noteq> sessions example_redis ''sid1''"
  by (simp add: handler_defs example_defs)

text \<open>
  C1 (amended): for every session whose access token has expired
  (\<open>now \<ge> access_token_expires_at\<close>), if the refresh call fails, by a transport failure
  or by an answer whose status is not 200 alike, both Validate and Session-Info delete
  the session record (the rest of the store is untouched) and answer 401
  \<^verbatim>\<open>Session expired\<close>.
\<close>

theorem refresh_failure_deletes_session:
  assumes "cookies req (session_cookie_name cfg) = Some sid" and "sid \<noteq> []"
    and "sessions st sid = Some (ttl, s)"
    and "current_time \<ge> access_token_expires_at s"
    and "reply = Transport_failure \<or> (\<exists>c b. reply = Http_response c b \<and> c \<noteq> 200)"
  shows "fst (validate_session cfg V st req current_time reply)
           = plain (Http_exception 401 ''Session expired'')
       \<and> fst (snd (validate_session cfg V st req current_time reply))
           = delete_session st sid
       \<and> fst (get_session_info P cfg V st req current_time reply new_sid)
           = plain (Http_exception 401 ''Session expired'')
       \<and> fst (snd (get_session_info P cfg V st req current_time reply new_sid))
           = delete_session st sid"
  using assms
  by (auto simp: validate_session_def get_session_info_def get_session_id_from_request_def
        get_session_def refresh_block_def complete_refresh_def refresh_access_token_def
      split: option.splits sum.splits)

theorem refresh_failure_deletes_session_witness:
  "cookies example_request (session_cookie_name default_settings) = Some ''sid1''
   \<and> sessions example_redis ''sid1'' = Some (3600, example_session)
   \<and> (1120::real) \<ge> access_token_expires_at example_session
   \<and> fst (validate_session default_settings example_vault example_redis example_request
            1120 Transport_failure)
       = plain (Http_exception 401 ''Session expired'')
   \<and> fst (snd (validate_session default_settings example_vault example_redis
            example_request 1120 Transport_failure))
       = delete_session example_redis ''sid1''
   \<and> fst (get_session_info example_platform default_settings example_vault example_redis
            example_request 1120 Transport_failure ''sid2'')
       = plain (Http_exception 401 ''Session expired'')
   \<and> fst (snd (get_session_info example_platform default_settings example_vault
            example_redis example_request 1120 Transport_failure ''sid2''))
       = delete_session example_redis ''sid1''"
  using refresh_failure_deletes_session
    [where req = example_request and cfg = default_settings and sid = "''sid1''"
       and st = example_redis and ttl = 3600 and s = example_session
       and current_time = 1120 and reply = Transport_failure and V = example_vault
       and new_sid = "''sid2''" and P = example_platform]
  by (simp add: example_defs)

subsection \<open>C2: concurrent refreshes\<close>

text \<open>
  C2 as stated fails. Two Validate requests for the example session arrive after its
  deadline; the first reaches its POST at 1120, the second at 1121, before the first
  reply. Both suspend holding the record they read and the refresh token \<^verbatim>\<open>RT1\<close>: the
  second does not see a refreshed record, it calls the provider itself. The first reply
  is a 200 and the refreshed record is stored; the provider refuses \<^verbatim>\<open>RT1\<close> the second
  time, and the second request deletes the session that the first has just refreshed.
\<close>

theorem concurrent_refresh_counterexample:
  "validate_begin default_settings example_vault example_redis example_request 1120
     = Inr (example_wait 1120)
   \<and> validate_begin default_settings example_vault example_redis example_request 1121
     = Inr (example_wait 1121)
   \<and> validate_resume default_settings example_vault example_redis (example_wait 1120)
       (Http_response 200 example_tokens)
     = (plain (Access_token_body ''AT2''),
        store_session default_settings example_redis ''sid1'' example_refreshed_session,
        [Refresh_grant ''RT1''])
   \<and> validate_resume default_settings example_vault
       (store_session default_settings example_redis ''sid1'' example_refreshed_session)
       (example_wait 1121) example_rejection
     = (plain (Http_exception 401 ''Session expired''),
        delete_session example_redis ''sid1'',
        [Refresh_grant ''RT1''])"
  by (simp add: split_defs handler_defs example_defs)

text \<open>
  C2 (amended): nothing serializes the refresh. Whenever executions of Validate or
  Session-Info read the same stored session at times at or after its deadline, before
  any of them has written (and the stored refresh token decrypts), every one of them
  suspends on a refresh call of its own, with the refresh token and the record it read.
  When its reply comes, each execution makes that one call and acts on its own reply
  alone, whatever is stored by then. On a transport failure, a status other than 200, a
  missing token or an \<^verbatim>\<open>expires_in\<close> without a float, Validate and Session-Info alike
  delete the key of the session and answer 401. On
  a 200 with both tokens (and an \<^verbatim>\<open>expires_in\<close> that has a float), each writes the
  record it read, with the two tokens and the deadline replaced from its own reply,
  over whatever is there: Validate under the same identifier, Session-Info under its
  new identifier after deleting the old one.
\<close>

theorem expired_reads_all_call_provider:
  assumes "cookies req (session_cookie_name cfg) = Some sid" and "sid \<noteq> []"
    and "sessions st sid = Some (ttl, s)"
    and "decrypt_token V (refresh_token s) = Some rtok"
    and "\<forall>t \<in> set clock_readings. t \<ge> access_token_expires_at s"
  shows "map (validate_begin cfg V st req) clock_readings
           = map (\<lambda>t. Inr \<lparr> rw_session_id = sid, rw_session = s, rw_current_time = t,
                             rw_refresh_token = rtok \<rparr>) clock_readings
       \<and> map (\<lambda>t. session_info_begin P cfg V st req t new_sid) clock_readings
           = map (\<lambda>t. Inr \<lparr> rw_session_id = sid, rw_session = s, rw_current_time = t,
                             rw_refresh_token = rtok \<rparr>) clock_readings
       \<and> snd (snd (validate_resume cfg V st2 w reply)) = [Refresh_grant (rw_refresh_token w)]
       \<and> snd (snd (session_info_resume P cfg V st2 w reply new_sid))
           = [Refresh_grant (rw_refresh_token w)]
       \<and> (reply = Transport_failure
            \<or> (\<exists>c b. reply = Http_response c b
                  \<and> (c \<noteq> 200 \<or> tr_access_token b = None \<or> tr_refresh_token b = None
                      \<or> int_to_float_overflows
                           (case tr_expires_in b of
                              None \<Rightarrow> access_token_ttl cfg | Some e \<Rightarrow> e))) \<longrightarrow>
            validate_resume cfg V st2 w reply
              = (\<lparr> content = Http_exception 401 ''Session expired'', set_cookie = No_cookie \<rparr>,
                 st2\<lparr> sessions := (sessions st2)(rw_session_id w := None) \<rparr>,
                 [Refresh_grant (rw_refresh_token w)])
          \<and> session_info_resume P cfg V st2 w reply new_sid
              = (\<lparr> content = Http_exception 401 ''Session expired'', set_cookie = No_cookie \<rparr>,
                 st2\<lparr> sessions := (sessions st2)(rw_session_id w := None) \<rparr>,
                 [Refresh_grant (rw_refresh_token w)]))
       \<and> (reply = Http_response 200 tokens \<and> tr_access_token tokens = Some atok
            \<and> tr_refresh_token tokens = Some new_rtok
            \<and> \<not> int_to_float_overflows
                  (case tr_expires_in tokens of None \<Rightarrow> access_token_ttl cfg | Some e \<Rightarrow> e)
          \<longrightarrow>
            fst (snd (validate_resume cfg V st2 w reply))
              = st2\<lparr> sessions := (sessions st2)(rw_session_id w \<mapsto> (session_ttl cfg,
                    (rw_session w)\<lparr> access_token := encrypt_token V atok,
                      refresh_token := encrypt_token V new_rtok,
                      access_token_expires_at :=
                        rw_current_time w + real_of_int (case tr_expires_in tokens of
                           None \<Rightarrow> access_token_ttl cfg | Some e \<Rightarrow> e) \<rparr>)) \<rparr>
          \<and> fst (snd (session_info_resume P cfg V st2 w reply new_sid))
              = st2\<lparr> sessions := ((sessions st2)(rw_session_id w := None))
                  (new_sid \<mapsto> (session_ttl cfg,
                    (rw_session w)\<lparr> access_token := encrypt_token V atok,
                      refresh_token := encrypt_token V new_rtok,
                      access_token_expires_at :=
                        rw_current_time w + real_of_int (case tr_expires_in tokens of
                           None \<Rightarrow> access_token_ttl cfg | Some e \<Rightarrow> e) \<rparr>)) \<rparr>)"
proof -
  have a: "map (validate_begin cfg V st req) clock_readings
           = map (\<lambda>t. Inr \<lparr> rw_session_id = sid, rw_session = s, rw_current_time = t,
                             rw_refresh_token = rtok \<rparr>) clock_readings"
    using assms
    by (intro map_cong refl)
       (simp add: validate_begin_def get_session_id_from_request_def get_session_def)
  have b: "map (\<lambda>t. session_info_begin P cfg V st req t new_sid) clock_readings
           = map (\<lambda>t. Inr \<lparr> rw_session_id = sid, rw_session = s, rw_current_time = t,
                             rw_refresh_token = rtok \<rparr>) clock_readings"
    using assms
    by (intro map_cong refl)
       (simp add: session_info_begin_def get_session_id_from_request_def get_session_def)
  have c: "snd (snd (validate_resume cfg V st2 w reply)) = [Refresh_grant (rw_refresh_token w)]"
    by (simp add: validate_resume_def return_access_token_store Let_def split: sum.splits)
  have d: "snd (snd (session_info_resume P cfg V st2 w reply new_sid))
           = [Refresh_grant (rw_refresh_token w)]"
    by (simp add: session_info_resume_def rotate_session_store Let_def split: sum.splits)
  have e: "validate_resume cfg V st2 w reply
              = (\<lparr> content = Http_exception 401 ''Session expired'', set_cookie = No_cookie \<rparr>,
                 st2\<lparr> sessions := (sessions st2)(rw_session_id w := None) \<rparr>,
                 [Refresh_grant (rw_refresh_token w)])
          \<and> session_info_resume P cfg V st2 w reply new_sid
              = (\<lparr> content = Http_exception 401 ''Session expired'', set_cookie = No_cookie \<rparr>,
                 st2\<lparr> sessions := (sessions st2)(rw_session_id w := None) \<rparr>,
                 [Refresh_grant (rw_refresh_token w)])"
    if "reply = Transport_failure
            \<or> (\<exists>c b. reply = Http_response c b
                  \<and> (c \<noteq> 200 \<or> tr_access_token b = None \<or> tr_refresh_token b = None
                      \<or> int_to_float_overflows
                           (case tr_expires_in b of
                              None \<Rightarrow> access_token_ttl cfg | Some e \<Rightarrow> e)))"
  proof -
    from complete_refresh_failure [OF that] obtain e where
      "complete_refresh cfg V (rw_session w) (rw_current_time w) reply = Inl e"
      by blast
    then show ?thesis
      by (simp add: validate_resume_def session_info_resume_def delete_session_def plain_def)
  qed
  have f: "fst (snd (validate_resume cfg V st2 w reply))
              = st2\<lparr> sessions := (sessions st2)(rw_session_id w \<mapsto> (session_ttl cfg,
                    (rw_session w)\<lparr> access_token := encrypt_token V atok,
                      refresh_token := encrypt_token V new_rtok,
                      access_token_expires_at :=
                        rw_current_time w + real_of_int (case tr_expires_in tokens of
                           None \<Rightarrow> access_token_ttl cfg | Some e \<Rightarrow> e) \<rparr>)) \<rparr>
          \<and> fst (snd (session_info_resume P cfg V st2 w reply new_sid))
              = st2\<lparr> sessions := ((sessions st2)(rw_session_id w := None))
                  (new_sid \<mapsto> (session_ttl cfg,
                    (rw_session w)\<lparr> access_token := encrypt_token V atok,
                      refresh_token := encrypt_token V new_rtok,
                      access_token_expires_at :=
                        rw_current_time w + real_of_int (case tr_expires_in tokens of
                           None \<Rightarrow> access_token_ttl cfg | Some e \<Rightarrow> e) \<rparr>)) \<rparr>"
    if "reply = Http_response 200 tokens \<and> tr_access_token tokens = Some atok
            \<and> tr_refresh_token tokens = Some new_rtok
            \<and> \<not> int_to_float_overflows
                  (case tr_expires_in tokens of None \<Rightarrow> access_token_ttl cfg | Some e \<Rightarrow> e)"
  proof -
    from that complete_refresh_success [of tokens atok new_rtok cfg V "rw_session w"
        "rw_current_time w"]
    have "complete_refresh cfg V (rw_session w) (rw_current_time w) reply
           = Inr ((rw_session w)\<lparr> access_token := encrypt_token V atok,
                      refresh_token := encrypt_token V new_rtok,
                      access_token_expires_at :=
                        rw_current_time w + real_of_int (case tr_expires_in tokens of
                           None \<Rightarrow> access_token_ttl cfg | Some e \<Rightarrow> e) \<rparr>)"
      by simp
    then show ?thesis
      by (simp add: validate_resume_def session_info_resume_def return_access_token_store
            rotate_session_store store_session_def delete_session_def)
  qed
  from a b c d e f show ?thesis by blast
qed

theorem expired_reads_all_call_provider_witness:
  "sessions example_redis ''sid1'' = Some (3600, example_session)
   \<and> decrypt_token example_vault (refresh_token example_session) = Some ''RT1''
   \<and> map (validate_begin default_settings example_vault example_redis example_request)
       [1120, 1121, 1122]
     = [Inr (example_wait 1120), Inr (example_wait 1121), Inr (example_wait 1122)]
   \<and> map (\<lambda>t. session_info_begin example_platform default_settings example_vault
       example_redis example_request t ''sid2'') [1120, 1121, 1122]
     = [Inr (example_wait 1120), Inr (example_wait 1121), Inr (example_wait 1122)]"
proof -
  have k: "cookies example_request (session_cookie_name default_settings) = Some ''sid1''"
    by (simp add: example_defs)
  have n: "''sid1'' \<noteq> []" by simp
  have s: "sessions example_redis ''sid1'' = Some (3600, example_session)"
    by (simp add: example_redis_def)
  have d: "decrypt_token example_vault (refresh_token example_session) = Some ''RT1''"
    by (simp add: example_defs)
  have t: "\<forall>t \<in> set [1120, 1121, 1122]. t \<ge> access_token_expires_at example_session"
    by (simp add: example_session_def)
  note th = expired_reads_all_call_provider
    [OF k n s d t, where P = example_platform and new_sid = "''sid2''"]
  from th have "map (validate_begin default_settings example_vault example_redis
       example_request) [1120, 1121, 1122]
     = map (\<lambda>t. Inr \<lparr> rw_session_id = ''sid1'', rw_session = example_session,
                       rw_current_time = t, rw_refresh_token = ''RT1'' \<rparr>) [1120, 1121, 1122]"
    by (rule conjunct1)
  moreover from th have "map (\<lambda>t. session_info_begin example_platform default_settings
       example_vault example_redis example_request t ''sid2'') [1120, 1121, 1122]
     = map (\<lambda>t. Inr \<lparr> rw_session_id = ''sid1'', rw_session = example_session,
                       rw_current_time = t, rw_refresh_token = ''RT1'' \<rparr>) [1120, 1121, 1122]"
    by blast
  ultimately show ?thesis
    using s d by (simp add: example_wait_def)
qed

subsection \<open>C3: the PKCE binding\<close>

text \<open>
  C3 as stated fails on its last clause. The handler consumes the binding with a GET
  (line 219) and, as a second command, a DELETE (line 224). Two callbacks with the state
  of the example, on two workers: both GETs run before the first DELETE, and both return
  the verifier. After the two DELETEs each callback exchanges its code with that
  verifier, and where the provider answers both, the store holds two sessions made from
  the one binding.
\<close>

theorem concurrent_consume_counterexample:
  "callback_read example_redis ''state1'' = Inr ''verifier1''
   \<and> callback_cleanup (callback_cleanup example_redis ''state1'') ''state1''
       = callback_cleanup example_redis ''state1''
   \<and> snd (snd (callback_resume example_platform default_settings example_vault
        (callback_cleanup example_redis ''state1'') ''abc'' ''verifier1''
        (Http_response 200 example_tokens) ''sid2'' 2000 2000))
       = [Exchange_code ''abc'' ''verifier1'' ''http://localhost:8001/auth/callback'']
   \<and> snd (snd (callback_resume example_platform default_settings example_vault
        (fst (snd (callback_resume example_platform default_settings example_vault
           (callback_cleanup example_redis ''state1'') ''abc'' ''verifier1''
           (Http_response 200 example_tokens) ''sid2'' 2000 2000)))
        ''abc'' ''verifier1'' (Http_response 200 example_tokens) ''sid3'' 2000 2000))
       = [Exchange_code ''abc'' ''verifier1'' ''http://localhost:8001/auth/callback'']
   \<and> sessions (fst (snd (callback_resume example_platform default_settings example_vault
        (fst (snd (callback_resume example_platform default_settings example_vault
           (callback_cleanup example_redis ''state1'') ''abc'' ''verifier1''
           (Http_response 200 example_tokens) ''sid2'' 2000 2000)))
        ''abc'' ''verifier1'' (Http_response 200 example_tokens) ''sid3'' 2000 2000)))
       = [''sid1'' \<mapsto> (3600, example_session), ''sid2'' \<mapsto> (3600, example_new_session),
          ''sid3'' \<mapsto> (3600, example_new_session)]"
  by (simp add: split_defs handler_defs example_defs redirect_uri_def)

text \<open>
  C3 (amended): for every pair (code, state) where the state is bound to a stored
  verifier and the provider accepts the code (a 200 with both tokens and an
  \<^verbatim>\<open>expires_in\<close> that has a float), Callback stores exactly one new session record (the
  session map changes at the new identifier only), deletes exactly that binding, sets
  the cookie to the new identifier and makes one exchange call. Any later Callback with
  the same state is refused with 400 \<^verbatim>\<open>Invalid or expired state\<close>, changes nothing in
  the store and makes no call. Where the \<^verbatim>\<open>expires_in\<close> of the 200 has no float, the
  addition raises after the binding was deleted: the answer is a 500, the binding is
  consumed and no session is stored. The consume is two commands and not an atomic
  get-and-delete: the GET returns the verifier and leaves the binding in the store, so
  every GET of the state that runs before the DELETE returns the verifier too; only a
  GET after the DELETE is refused.
\<close>

theorem callback_consumes_binding_once:
  assumes "pkce st state = Some (ttl, code_verifier)" and "code_verifier \<noteq> []"
    and "tr_access_token tokens = Some atok" and "tr_refresh_token tokens = Some rtok"
    and "callback P cfg V st code state (Http_response 200 tokens) session_id t1 t2
           = (resp, st', calls)"
  shows "(\<not> int_to_float_overflows
              (case tr_expires_in tokens of None \<Rightarrow> access_token_ttl cfg | Some e \<Rightarrow> e)
          \<longrightarrow>
            sessions st' = (sessions st)(session_id \<mapsto> (session_ttl cfg,
              \<lparr> access_token = encrypt_token V atok,
                refresh_token = encrypt_token V rtok,
                access_token_expires_at =
                  t1 + real_of_int (case tr_expires_in tokens of
                                      None \<Rightarrow> access_token_ttl cfg | Some e \<Rightarrow> e),
                created_at = t2,
                user_info = None \<rparr>))
          \<and> resp = \<lparr> content = Redirect (url_quote P (frontend_url cfg)),
                     set_cookie = Set_cookie
                       \<lparr> ck_key = session_cookie_name cfg, ck_value = session_id,
                         ck_httponly = True, ck_secure = True, ck_samesite = ''lax'',
                         ck_max_age = session_ttl cfg \<rparr> \<rparr>)
       \<and> (int_to_float_overflows
              (case tr_expires_in tokens of None \<Rightarrow> access_token_ttl cfg | Some e \<Rightarrow> e)
          \<longrightarrow>
            sessions st' = sessions st
          \<and> resp = \<lparr> content = Internal_server_error, set_cookie = No_cookie \<rparr>)
       \<and> pkce st' = (pkce st)(state := None)
       \<and> calls = [Exchange_code code code_verifier ''http://localhost:8001/auth/callback'']
       \<and> callback P cfg V st' code2 state reply2 session_id2 t3 t4 =
           (\<lparr> content = Http_exception 400 ''Invalid or expired state'',
              set_cookie = No_cookie \<rparr>, st', [])
       \<and> callback_read st state = Inr code_verifier
       \<and> sessions (callback_cleanup st state) = sessions st
       \<and> pkce (callback_cleanup st state) = (pkce st)(state := None)
       \<and> callback_read (callback_cleanup st state) state =
           Inl \<lparr> content = Http_exception 400 ''Invalid or expired state'',
                 set_cookie = No_cookie \<rparr>"
proof (cases "int_to_float_overflows
    (case tr_expires_in tokens of None \<Rightarrow> access_token_ttl cfg | Some e \<Rightarrow> e)")
  case True
  with assms show ?thesis
    by (auto simp: handler_defs split_defs redirect_uri_def Let_def)
next
  case False
  with assms show ?thesis
    by (auto simp: handler_defs split_defs redirect_uri_def Let_def)
qed

theorem callback_consumes_binding_once_witness:
  "pkce example_redis ''state1'' = Some (300, ''verifier1'')
   \<and> pkce (fst (snd (callback example_platform default_settings example_vault example_redis
        ''abc'' ''state1'' (Http_response 200 example_tokens) ''sid2'' 2000 2000)))
       = (pkce example_redis)(''state1'' := None)
   \<and> sessions (fst (snd (callback example_platform default_settings example_vault
        example_redis ''abc'' ''state1'' (Http_response 200 example_tokens) ''sid2''
        2000 2000)))
       = (sessions example_redis)(''sid2'' \<mapsto> (3600, example_new_session))
   \<and> fst (callback example_platform default_settings example_vault example_redis
        ''abc'' ''state1'' (Http_response 200 example_tokens) ''sid2'' 2000 2000)
       = \<lparr> content = Redirect ''http://localhost:3000'',
           set_cookie = Set_cookie
             \<lparr> ck_key = ''bionicpro_session'', ck_value = ''sid2'', ck_httponly = True,
               ck_secure = True, ck_samesite = ''lax'', ck_max_age = 3600 \<rparr> \<rparr>
   \<and> fst (callback example_platform default_settings example_vault
        (fst (snd (callback example_platform default_settings example_vault example_redis
           ''abc'' ''state1'' (Http_response 200 example_tokens) ''sid2'' 2000 2000)))
        ''abc'' ''state1'' (Http_response 200 example_tokens) ''sid3'' 2002 2003)
       = \<lparr> content = Http_exception 400 ''Invalid or expired state'',
           set_cookie = No_cookie \<rparr>"
proof -
  have b: "pkce example_redis ''state1'' = Some (300, ''verifier1'')"
    by (simp add: example_redis_def)
  have n: "''verifier1'' \<noteq> []" by simp
  have a: "tr_access_token example_tokens = Some ''AT2''"
    and r: "tr_refresh_token example_tokens = Some ''RT2''"
    by (simp_all add: example_tokens_def)
  have c: "callback example_platform default_settings example_vault example_redis
        ''abc'' ''state1'' (Http_response 200 example_tokens) ''sid2'' 2000 2000
      = (fst (callback example_platform default_settings example_vault example_redis
           ''abc'' ''state1'' (Http_response 200 example_tokens) ''sid2'' 2000 2000),
         fst (snd (callback example_platform default_settings example_vault example_redis
           ''abc'' ''state1'' (Http_response 200 example_tokens) ''sid2'' 2000 2000)),
         snd (snd (callback example_platform default_settings example_vault example_redis
           ''abc'' ''state1'' (Http_response 200 example_tokens) ''sid2'' 2000 2000)))"
    by simp
  note th = callback_consumes_binding_once
    [OF b n a r c, where ?code2.0 = "''abc''"
       and ?reply2.0 = "Http_response 200 example_tokens"
       and ?session_id2.0 = "''sid3''" and ?t3.0 = 2002 and ?t4.0 = 2003]
  from th b show ?thesis
    by (simp add: example_defs)
qed

subsection \<open>C4: the refresh fires at the deadline and not before\<close>

text \<open>
  C4: for every session of a reachable store, with a vault that decrypts what it
  encrypted, Validate and Session-Info make no upstream call while
  \<open>now < access_token_expires_at\<close> and reuse the record as it is: Validate leaves the
  store unchanged and answers with the decrypted access token, Session-Info moves the
  unchanged record to the new identifier. Whenever \<open>now \<ge> access_token_expires_at\<close>,
  each makes exactly one call, the refresh exchange with the decrypted refresh token.
  The comparison is with the deadline itself, without a margin.
\<close>

theorem refresh_fires_at_deadline_only:
  assumes "reachable P cfg V st D"
    and "\<forall>t. decrypt_token V (encrypt_token V t) = Some t"
    and "cookies req (session_cookie_name cfg) = Some sid" and "sid \<noteq> []"
    and "sessions st sid = Some (ttl, s)"
  shows "(current_time < access_token_expires_at s \<longrightarrow>
            snd (snd (validate_session cfg V st req current_time reply)) = []
          \<and> snd (snd (get_session_info P cfg V st req current_time reply new_sid)) = []
          \<and> fst (snd (validate_session cfg V st req current_time reply)) = st
          \<and> (\<exists>tok. decrypt_token V (access_token s) = Some tok
                \<and> fst (validate_session cfg V st req current_time reply)
                    = \<lparr> content = Access_token_body tok, set_cookie = No_cookie \<rparr>)
          \<and> fst (snd (get_session_info P cfg V st req current_time reply new_sid))
              = st\<lparr> sessions := ((sessions st)(sid := None))
                                   (new_sid \<mapsto> (session_ttl cfg, s)) \<rparr>)
       \<and> (current_time \<ge> access_token_expires_at s \<longrightarrow>
            (\<exists>rtok. decrypt_token V (refresh_token s) = Some rtok
               \<and> snd (snd (validate_session cfg V st req current_time reply))
                   = [Refresh_grant rtok]
               \<and> snd (snd (get_session_info P cfg V st req current_time reply new_sid))
                   = [Refresh_grant rtok]))"
proof -
  from reachable_token_free [OF assms(1)] assms(5)
  have "access_token s \<in> range (encrypt_token V)"
    and "refresh_token s \<in> range (encrypt_token V)"
    by (auto simp: token_free_store_def)
  with assms(2) obtain tok rtok where
    a: "decrypt_token V (access_token s) = Some tok"
    and r: "decrypt_token V (refresh_token s) = Some rtok"
    by auto
  note calls = ensure_fresh_calls [OF assms(3-5)]
  note early = ensure_fresh_before_deadline [OF assms(3-5)]
  have v: "fst (validate_session cfg V st req current_time reply)
             = \<lparr> content = Access_token_body tok, set_cookie = No_cookie \<rparr>"
    if "current_time < access_token_expires_at s"
    using that a assms(3-5)
    by (simp add: validate_session_def get_session_id_from_request_def get_session_def
          return_access_token_def plain_def)
  show ?thesis
    using calls early v a r
    by (auto simp: store_session_def delete_session_def)
qed

theorem refresh_fires_at_deadline_only_witness:
  "reachable example_platform default_settings example_vault example_callback_redis
     {''sid1'', ''state1'', ''verifier1''}
   \<and> map_option (access_token_expires_at \<circ> snd) (sessions example_callback_redis ''sid1'')
       = Some 1120
   \<and> snd (snd (validate_session default_settings example_vault example_callback_redis
        example_request 1119 (Http_response 200 example_tokens))) = []
   \<and> snd (snd (get_session_info example_platform default_settings example_vault
        example_callback_redis example_request 1119 (Http_response 200 example_tokens)
        ''sid2'')) = []
   \<and> snd (snd (validate_session default_settings example_vault example_callback_redis
        example_request 1120 (Http_response 200 example_tokens))) = [Refresh_grant ''RT2'']
   \<and> snd (snd (get_session_info example_platform default_settings example_vault
        example_callback_redis example_request 1120 (Http_response 200 example_tokens)
        ''sid2'')) = [Refresh_grant ''RT2'']"
proof -
  note r = example_callback_reachable
  have v: "\<forall>t. decrypt_token example_vault (encrypt_token example_vault t) = Some t"
    by (simp add: example_vault_def)
  have k: "cookies example_request (session_cookie_name default_settings) = Some ''sid1''"
    by (simp add: example_defs)
  have n: "''sid1'' \<noteq> []" by simp
  note s = example_callback_redis_session
  note before = refresh_fires_at_deadline_only
    [OF r v k n s, where current_time = 1119
       and reply = "Http_response 200 example_tokens" and new_sid = "''sid2''"]
  note from_deadline = refresh_fires_at_deadline_only
    [OF r v k n s, where current_time = 1120
       and reply = "Http_response 200 example_tokens" and new_sid = "''sid2''"]
  from r s before from_deadline show ?thesis
    by (simp add: example_vault_def)
qed

subsection \<open>C5: a token that does not decrypt\<close>

text \<open>
  C5 on the code: the session's access token does not decrypt and the deadline (1120)
  has not come. Validate decrypts the access token outside its try block: the
  exception leaves the handler, the answer is a 500 and the session record stays in the
  store, where the claim has a 401 and the record deleted. The second equation is the
  sibling path: the refresh token does not decrypt, inside the try block, and the record
  is deleted with a 401.
\<close>

theorem validate_undecryptable_access_token:
  "validate_session default_settings example_vault tampered_access_redis
     example_request 1000 reply
   = (plain Internal_server_error, tampered_access_redis, [])
  \<and> validate_session default_settings example_vault tampered_refresh_redis
     example_request 1120 reply
   = (plain (Http_exception 401 ''Session expired''),
      delete_session tampered_refresh_redis ''sid1'', [])"
  by (simp add: handler_defs example_defs)

subsection \<open>C6: raw tokens stay in the process\<close>

lemma login_response:
  "fst (login P cfg challenge st code_verifier state)
     = \<lparr> content = Redirect (url_quote P (auth_url cfg state (challenge code_verifier))),
         set_cookie = No_cookie \<rparr>"
  by (simp add: login_def redirect_response_def plain_def Let_def)

lemma callback_response:
  "fst (callback P cfg V st code state reply session_id t1 t2)
     \<in> {\<lparr> content = Http_exception 400 ''Invalid or expired state'', set_cookie = No_cookie \<rparr>,
        \<lparr> content = Http_exception 401 ''Token exchange failed'', set_cookie = No_cookie \<rparr>,
        \<lparr> content = Internal_server_error, set_cookie = No_cookie \<rparr>,
        \<lparr> content = Redirect (url_quote P (frontend_url cfg)),
          set_cookie = Set_cookie
            \<lparr> ck_key = session_cookie_name cfg, ck_value = session_id, ck_httponly = True,
              ck_secure = True, ck_samesite = ''lax'', ck_max_age = session_ttl cfg \<rparr> \<rparr>}"
  by (simp add: callback_def get_keycloak_token_def raise_exn_def Let_def plain_def
        redirect_response_def set_session_cookie_def float_add_int_def
      split: option.splits sum.splits http_result.splits)

lemma logout_response:
  "fst (logout P cfg V st req reply)
     = \<lparr> content = Redirect (url_quote P (frontend_url cfg)),
         set_cookie = Delete_cookie (session_cookie_name cfg) \<rparr>"
  by (simp add: logout_def Let_def redirect_response_def plain_def split: option.splits)

lemma session_info_response:
  "fst (get_session_info P cfg V st req current_time reply new_sid)
     \<in> {\<lparr> content = Http_exception 401 ''No session'', set_cookie = No_cookie \<rparr>,
        \<lparr> content = Http_exception 401 ''Invalid session'', set_cookie = No_cookie \<rparr>,
        \<lparr> content = Http_exception 401 ''Session expired'', set_cookie = No_cookie \<rparr>,
        \<lparr> content = Internal_server_error, set_cookie = No_cookie \<rparr>}
   \<or> (\<exists>v. fst (get_session_info P cfg V st req current_time reply new_sid)
           = \<lparr> content = Session_status True v,
               set_cookie = Set_cookie
                 \<lparr> ck_key = session_cookie_name cfg, ck_value = new_sid, ck_httponly = True,
                   ck_secure = True, ck_samesite = ''lax'',
                   ck_max_age = session_ttl cfg \<rparr> \<rparr>)"
  by (auto simp: get_session_info_def rotate_session_response plain_def
      split: option.splits sum.splits prod.splits)

text \<open>
  C6: in every reachable store, every string is accounted for: the keys and the PKCE
  values are random values the service drew, the access and refresh token fields of
  every session record are outputs of \<^verbatim>\<open>encrypt_token\<close>, and \<^verbatim>\<open>user_info\<close> is empty:
  no handler writes a token it received or decrypted. The browser-facing handlers
  answer with nothing but the following: login with the redirect to the provider's
  authorization URL (settings, state and challenge); callback with one of three fixed
  errors or the redirect to the front end and the cookie whose value is the new session
  identifier; logout with the redirect to the front end and the cleared cookie;
  Session-Info with one of four fixed errors or the authenticated flag, a timestamp and
  the cookie whose value is the new session identifier.
\<close>

theorem raw_tokens_never_stored_or_sent:
  "(reachable P cfg V st D \<longrightarrow> token_free_store V D st)
   \<and> fst (login P cfg challenge st1 code_verifier state1)
       = \<lparr> content = Redirect (url_quote P (auth_url cfg state1 (challenge code_verifier))),
           set_cookie = No_cookie \<rparr>
   \<and> fst (callback P cfg V st2 code state2 reply2 session_id t1 t2)
       \<in> {\<lparr> content = Http_exception 400 ''Invalid or expired state'',
            set_cookie = No_cookie \<rparr>,
          \<lparr> content = Http_exception 401 ''Token exchange failed'', set_cookie = No_cookie \<rparr>,
          \<lparr> content = Internal_server_error, set_cookie = No_cookie \<rparr>,
          \<lparr> content = Redirect (url_quote P (frontend_url cfg)),
            set_cookie = Set_cookie
              \<lparr> ck_key = session_cookie_name cfg, ck_value = session_id,
                ck_httponly = True, ck_secure = True, ck_samesite = ''lax'',
                ck_max_age = session_ttl cfg \<rparr> \<rparr>}
   \<and> fst (logout P cfg V st3 req3 lreply)
       = \<lparr> content = Redirect (url_quote P (frontend_url cfg)),
           set_cookie = Delete_cookie (session_cookie_name cfg) \<rparr>
   \<and> (fst (get_session_info P cfg V st4 req4 t4 reply4 new_sid)
       \<in> {\<lparr> content = Http_exception 401 ''No session'', set_cookie = No_cookie \<rparr>,
          \<lparr> content = Http_exception 401 ''Invalid session'', set_cookie = No_cookie \<rparr>,
          \<lparr> content = Http_exception 401 ''Session expired'', set_cookie = No_cookie \<rparr>,
          \<lparr> content = Internal_server_error, set_cookie = No_cookie \<rparr>}
     \<or> (\<exists>v. fst (get_session_info P cfg V st4 req4 t4 reply4 new_sid)
           = \<lparr> content = Session_status True v,
               set_cookie = Set_cookie
                 \<lparr> ck_key = session_cookie_name cfg, ck_value = new_sid,
                   ck_httponly = True, ck_secure = True, ck_samesite = ''lax'',
                   ck_max_age = session_ttl cfg \<rparr> \<rparr>))"
proof (intro conjI impI)
  assume "reachable P cfg V st D"
  then show "token_free_store V D st" by (rule reachable_token_free)
qed (rule login_response callback_response logout_response session_info_response)+

theorem raw_tokens_never_stored_or_sent_witness:
  "reachable example_platform default_settings example_vault example_callback_redis
     {''sid1'', ''state1'', ''verifier1''}
   \<and> token_free_store example_vault {''sid1'', ''state1'', ''verifier1''}
       example_callback_redis
   \<and> sessions example_callback_redis ''sid1''
       = Some (3600, \<lparr> access_token = ''enc:AT2'', refresh_token = ''enc:RT2'',
                        access_token_expires_at = 1120, created_at = 1000,
                        user_info = None \<rparr>)"
proof -
  note r = example_callback_reachable
  from raw_tokens_never_stored_or_sent
    [where P = example_platform and cfg = default_settings and V = example_vault
       and st = example_callback_redis and D = "{''sid1'', ''state1'', ''verifier1''}"]
  have "reachable example_platform default_settings example_vault example_callback_redis
          {''sid1'', ''state1'', ''verifier1''}
        \<longrightarrow> token_free_store example_vault {''sid1'', ''state1'', ''verifier1''}
              example_callback_redis"
    by (rule conjunct1)
  with r example_callback_redis_session show ?thesis by simp
qed

subsection \<open>C7: Session-Info rotates the identifier\<close>

text \<open>
  C7: whenever Session-Info succeeds and the identifier it drew is a new one, the prior
  identifier no longer resolves, the new identifier resolves to the record (the same
  record before the deadline, the record with the two tokens and the deadline replaced
  from the provider's reply after it; \<^verbatim>\<open>created_at\<close> and \<^verbatim>\<open>user_info\<close> are the same
  in both cases), the response sets the session cookie (configured name, http-only,
  secure, same-site lax, max-age the session time-to-live) to the new identifier, and
  the body is the authenticated flag and the validity deadline
  \<open>created_at + session_ttl\<close>, nothing else; it succeeds only where that deadline is a
  date the platform can format. No other session and no PKCE binding is touched.
\<close>

theorem session_info_rotates_identifier:
  assumes "cookies req (session_cookie_name cfg) = Some sid"
    and "get_session_info P cfg V st req current_time reply new_sid = (resp, st', calls)"
    and "content resp = Session_status a v"
    and "new_sid \<noteq> sid"
  shows "sessions st' sid = None
       \<and> (\<exists>ttl s s'. sessions st sid = Some (ttl, s)
             \<and> sessions st' new_sid = Some (session_ttl cfg, s')
             \<and> created_at s' = created_at s \<and> user_info s' = user_info s
             \<and> (current_time < access_token_expires_at s \<longrightarrow> s' = s)
             \<and> (current_time \<ge> access_token_expires_at s \<longrightarrow>
                  (\<exists>tokens atok rtok. reply = Http_response 200 tokens
                     \<and> tr_access_token tokens = Some atok
                     \<and> tr_refresh_token tokens = Some rtok
                     \<and> s' = s\<lparr> access_token := encrypt_token V atok,
                               refresh_token := encrypt_token V rtok,
                               access_token_expires_at :=
                                 current_time + real_of_int (case tr_expires_in tokens of
                                    None \<Rightarrow> access_token_ttl cfg | Some e \<Rightarrow> e) \<rparr>))
             \<and> content resp
                 = Session_status True (created_at s + real_of_int (session_ttl cfg))
             \<and> \<not> int_to_float_overflows (session_ttl cfg)
             \<and> fromtimestamp_ok P (created_at s + real_of_int (session_ttl cfg)))
       \<and> set_cookie resp
           = Set_cookie \<lparr> ck_key = session_cookie_name cfg, ck_value = new_sid,
                          ck_httponly = True, ck_secure = True, ck_samesite = ''lax'',
                          ck_max_age = session_ttl cfg \<rparr>
       \<and> (\<forall>k. k \<noteq> sid \<and> k \<noteq> new_sid \<longrightarrow> sessions st' k = sessions st k)
       \<and> pkce st' = pkce st"
proof -
  from session_info_success [OF assms(1-3)] obtain s s' where
    s: "get_session st sid = Some s"
    and fresh: "(current_time < access_token_expires_at s \<and> s' = s \<and> calls = [])
        \<or> (current_time \<ge> access_token_expires_at s
            \<and> refresh_block cfg V s current_time reply = (Inr s', calls))"
    and rot: "rotate_session P cfg st sid s' new_sid calls = (resp, st', calls)"
    by blast
  from s obtain ttl where stored: "sessions st sid = Some (ttl, s)"
    by (auto simp: get_session_def)
  from rot rotate_session_store [of P cfg st sid s' new_sid calls]
  have st': "st' = store_session cfg (delete_session st sid) new_sid s'"
    by simp
  from rot assms(3)
  have resp: "resp = \<lparr> content = Session_status True
                         (created_at s' + real_of_int (session_ttl cfg)),
                      set_cookie = Set_cookie
                        \<lparr> ck_key = session_cookie_name cfg, ck_value = new_sid,
                          ck_httponly = True, ck_secure = True, ck_samesite = ''lax'',
                          ck_max_age = session_ttl cfg \<rparr> \<rparr>"
    and fmt: "\<not> int_to_float_overflows (session_ttl cfg)
        \<and> fromtimestamp_ok P (created_at s' + real_of_int (session_ttl cfg))"
    by (auto simp: rotate_session_def Let_def raise_exn_def float_add_int_def plain_def
          set_session_cookie_def
        split: if_splits)
  have old: "sessions st' sid = None"
    using st' assms(4) by (simp add: store_session_def delete_session_def)
  have new: "sessions st' new_sid = Some (session_ttl cfg, s')"
    using st' by (simp add: store_session_def)
  have others: "\<forall>k. k \<noteq> sid \<and> k \<noteq> new_sid \<longrightarrow> sessions st' k = sessions st k"
    using st' by (simp add: store_session_def delete_session_def)
  have pk: "pkce st' = pkce st"
    using st' by (simp add: store_session_def delete_session_def)
  have early: "current_time < access_token_expires_at s \<longrightarrow> s' = s"
    using fresh by auto
  have late: "current_time \<ge> access_token_expires_at s \<longrightarrow>
      (\<exists>tokens atok rtok. reply = Http_response 200 tokens
         \<and> tr_access_token tokens = Some atok
         \<and> tr_refresh_token tokens = Some rtok
         \<and> s' = s\<lparr> access_token := encrypt_token V atok,
                   refresh_token := encrypt_token V rtok,
                   access_token_expires_at :=
                     current_time + real_of_int (case tr_expires_in tokens of
                        None \<Rightarrow> access_token_ttl cfg | Some e \<Rightarrow> e) \<rparr>)"
  proof
    assume "current_time \<ge> access_token_expires_at s"
    with fresh have "refresh_block cfg V s current_time reply = (Inr s', calls)"
      by auto
    from refresh_block_Inr [OF this] obtain tokens where
      t: "reply = Http_response 200 tokens"
      and r: "replace_tokens cfg V s current_time tokens = Inr s'"
      by blast
    from replace_tokens_Inr [OF r] t show
      "\<exists>tokens atok rtok. reply = Http_response 200 tokens
         \<and> tr_access_token tokens = Some atok
         \<and> tr_refresh_token tokens = Some rtok
         \<and> s' = s\<lparr> access_token := encrypt_token V atok,
                   refresh_token := encrypt_token V rtok,
                   access_token_expires_at :=
                     current_time + real_of_int (case tr_expires_in tokens of
                        None \<Rightarrow> access_token_ttl cfg | Some e \<Rightarrow> e) \<rparr>"
      by blast
  qed
  have frame: "created_at s' = created_at s \<and> user_info s' = user_info s"
    using fresh refresh_block_frame by fastforce
  have body: "content resp
      = Session_status True (created_at s + real_of_int (session_ttl cfg))"
    using resp frame by simp
  have ck: "set_cookie resp
      = Set_cookie \<lparr> ck_key = session_cookie_name cfg, ck_value = new_sid,
                     ck_httponly = True, ck_secure = True, ck_samesite = ''lax'',
                     ck_max_age = session_ttl cfg \<rparr>"
    using resp by simp
  have fmt': "\<not> int_to_float_overflows (session_ttl cfg)
      \<and> fromtimestamp_ok P (created_at s + real_of_int (session_ttl cfg))"
    using fmt frame by simp
  from stored new frame early late body fmt'
  have mid: "\<exists>ttl s s'. sessions st sid = Some (ttl, s)
             \<and> sessions st' new_sid = Some (session_ttl cfg, s')
             \<and> created_at s' = created_at s \<and> user_info s' = user_info s
             \<and> (current_time < access_token_expires_at s \<longrightarrow> s' = s)
             \<and> (current_time \<ge> access_token_expires_at s \<longrightarrow>
                  (\<exists>tokens atok rtok. reply = Http_response 200 tokens
                     \<and> tr_access_token tokens = Some atok
                     \<and> tr_refresh_token tokens = Some rtok
                     \<and> s' = s\<lparr> access_token := encrypt_token V atok,
                               refresh_token := encrypt_token V rtok,
                               access_token_expires_at :=
                                 current_time + real_of_int (case tr_expires_in tokens of
                                    None \<Rightarrow> access_token_ttl cfg | Some e \<Rightarrow> e) \<rparr>))
             \<and> content resp
                 = Session_status True (created_at s + real_of_int (session_ttl cfg))
             \<and> \<not> int_to_float_overflows (session_ttl cfg)
             \<and> fromtimestamp_ok P (created_at s + real_of_int (session_ttl cfg))"
    by blast
  from old mid ck others pk show ?thesis by blast
qed

theorem session_info_rotates_identifier_witness:
  "cookies example_request (session_cookie_name default_settings) = Some ''sid1''
   \<and> ''sid2'' \<noteq> ''sid1''
   \<and> content (fst (get_session_info example_platform default_settings example_vault
        example_redis example_request 1119 Transport_failure ''sid2''))
       = Session_status True 4600
   \<and> set_cookie (fst (get_session_info example_platform default_settings example_vault
        example_redis example_request 1119 Transport_failure ''sid2''))
       = Set_cookie \<lparr> ck_key = ''bionicpro_session'', ck_value = ''sid2'',
                      ck_httponly = True, ck_secure = True, ck_samesite = ''lax'',
                      ck_max_age = 3600 \<rparr>
   \<and> sessions (fst (snd (get_session_info example_platform default_settings example_vault
        example_redis example_request 1119 Transport_failure ''sid2''))) ''sid1'' = None
   \<and> pkce (fst (snd (get_session_info example_platform default_settings example_vault
        example_redis example_request 1119 Transport_failure ''sid2''))) = pkce example_redis"
proof -
  have c: "content (fst (get_session_info example_platform default_settings example_vault
        example_redis example_request 1119 Transport_failure ''sid2''))
      = Session_status True 4600"
    by (simp add: handler_defs example_defs)
  have k: "cookies example_request (session_cookie_name default_settings) = Some ''sid1''"
    by (simp add: example_defs)
  have o: "get_session_info example_platform default_settings example_vault
        example_redis example_request 1119 Transport_failure ''sid2''
      = (fst (get_session_info example_platform default_settings example_vault
           example_redis example_request 1119 Transport_failure ''sid2''),
         fst (snd (get_session_info example_platform default_settings example_vault
           example_redis example_request 1119 Transport_failure ''sid2'')),
         snd (snd (get_session_info example_platform default_settings example_vault
           example_redis example_request 1119 Transport_failure ''sid2'')))"
    by simp
  have n: "''sid2'' \<noteq> ''sid1''" by simp
  note th = session_info_rotates_identifier [OF k o c n]
  from th c k show ?thesis
    by (simp add: default_settings_def)
qed

subsection \<open>C8: Validate keeps the identifier and returns the token\<close>

text \<open>
  C8: whenever Validate succeeds, the session is still stored under the identifier of
  the request: unchanged, with the whole store unchanged, before the deadline; replaced
  under that same identifier by the refreshed record after it. No other session is
  touched and no cookie is set. The body is the decryption of the access token of the
  record that is now stored. No other handler answers with a token: login, callback,
  logout and Session-Info answer with nothing but the redirects, fixed errors, status
  and cookies listed here, none of which is made of a token.
\<close>

theorem validate_keeps_identifier:
  assumes "cookies req (session_cookie_name cfg) = Some sid"
    and "validate_session cfg V st req current_time reply = (resp, st', calls)"
    and "content resp = Access_token_body tok"
  shows "(\<exists>s s'. get_session st sid = Some s \<and> get_session st' sid = Some s'
             \<and> decrypt_token V (access_token s') = Some tok
             \<and> (current_time < access_token_expires_at s \<longrightarrow> s' = s \<and> st' = st)
             \<and> (current_time \<ge> access_token_expires_at s \<longrightarrow>
                  (\<exists>tokens atok rtok. reply = Http_response 200 tokens
                     \<and> tr_access_token tokens = Some atok
                     \<and> tr_refresh_token tokens = Some rtok
                     \<and> s' = s\<lparr> access_token := encrypt_token V atok,
                               refresh_token := encrypt_token V rtok,
                               access_token_expires_at :=
                                 current_time + real_of_int (case tr_expires_in tokens of
                                    None \<Rightarrow> access_token_ttl cfg | Some e \<Rightarrow> e) \<rparr>
                     \<and> st' = st\<lparr> sessions :=
                                    (sessions st)(sid \<mapsto> (session_ttl cfg, s')) \<rparr>)))
       \<and> (\<forall>k. k \<noteq> sid \<longrightarrow> sessions st' k = sessions st k)
       \<and> pkce st' = pkce st
       \<and> resp = \<lparr> content = Access_token_body tok, set_cookie = No_cookie \<rparr>
       \<and> fst (login P cfg challenge st1 code_verifier state1)
           = \<lparr> content = Redirect (url_quote P (auth_url cfg state1 (challenge code_verifier))),
               set_cookie = No_cookie \<rparr>
       \<and> fst (callback P cfg V st2 code state2 reply2 session_id t1 t2)
           \<in> {\<lparr> content = Http_exception 400 ''Invalid or expired state'',
                set_cookie = No_cookie \<rparr>,
              \<lparr> content = Http_exception 401 ''Token exchange failed'',
                set_cookie = No_cookie \<rparr>,
              \<lparr> content = Internal_server_error, set_cookie = No_cookie \<rparr>,
              \<lparr> content = Redirect (url_quote P (frontend_url cfg)),
                set_cookie = Set_cookie
                  \<lparr> ck_key = session_cookie_name cfg, ck_value = session_id,
                    ck_httponly = True, ck_secure = True, ck_samesite = ''lax'',
                    ck_max_age = session_ttl cfg \<rparr> \<rparr>}
       \<and> fst (logout P cfg V st3 req3 lreply)
           = \<lparr> content = Redirect (url_quote P (frontend_url cfg)),
               set_cookie = Delete_cookie (session_cookie_name cfg) \<rparr>
       \<and> (fst (get_session_info P cfg V st4 req4 t4 reply4 new_sid)
           \<in> {\<lparr> content = Http_exception 401 ''No session'', set_cookie = No_cookie \<rparr>,
              \<lparr> content = Http_exception 401 ''Invalid session'', set_cookie = No_cookie \<rparr>,
              \<lparr> content = Http_exception 401 ''Session expired'', set_cookie = No_cookie \<rparr>,
              \<lparr> content = Internal_server_error, set_cookie = No_cookie \<rparr>}
         \<or> (\<exists>v. fst (get_session_info P cfg V st4 req4 t4 reply4 new_sid)
               = \<lparr> content = Session_status True v,
                   set_cookie = Set_cookie
                     \<lparr> ck_key = session_cookie_name cfg, ck_value = new_sid,
                       ck_httponly = True, ck_secure = True, ck_samesite = ''lax'',
                       ck_max_age = session_ttl cfg \<rparr> \<rparr>))"
proof -
  from validate_success [OF assms] obtain s where
    s: "get_session st sid = Some s"
    and cases: "(current_time < access_token_expires_at s
                \<and> return_access_token V st s [] = (resp, st', calls))
              \<or> (current_time \<ge> access_token_expires_at s
                  \<and> (\<exists>s' cs. refresh_block cfg V s current_time reply = (Inr s', cs)
                        \<and> return_access_token V (store_session cfg st sid s') s' cs
                            = (resp, st', calls)))"
    by blast
  have main: "(\<exists>s'. get_session st' sid = Some s'
             \<and> decrypt_token V (access_token s') = Some tok
             \<and> (current_time < access_token_expires_at s \<longrightarrow> s' = s \<and> st' = st)
             \<and> (current_time \<ge> access_token_expires_at s \<longrightarrow>
                  (\<exists>tokens atok rtok. reply = Http_response 200 tokens
                     \<and> tr_access_token tokens = Some atok
                     \<and> tr_refresh_token tokens = Some rtok
                     \<and> s' = s\<lparr> access_token := encrypt_token V atok,
                               refresh_token := encrypt_token V rtok,
                               access_token_expires_at :=
                                 current_time + real_of_int (case tr_expires_in tokens of
                                    None \<Rightarrow> access_token_ttl cfg | Some e \<Rightarrow> e) \<rparr>
                     \<and> st' = st\<lparr> sessions :=
                                    (sessions st)(sid \<mapsto> (session_ttl cfg, s')) \<rparr>)))
       \<and> (\<forall>k. k \<noteq> sid \<longrightarrow> sessions st' k = sessions st k)
       \<and> pkce st' = pkce st
       \<and> resp = \<lparr> content = Access_token_body tok, set_cookie = No_cookie \<rparr>"
    using cases
  proof
    assume early: "current_time < access_token_expires_at s
                \<and> return_access_token V st s [] = (resp, st', calls)"
    then have e: "current_time < access_token_expires_at s"
      and ret: "return_access_token V st s [] = (resp, st', calls)"
      by simp_all
    from return_access_token_result [OF ret assms(3)]
    have dec: "decrypt_token V (access_token s) = Some tok"
      and st': "st' = st"
      and ck: "set_cookie resp = No_cookie"
      by auto
    from e have ne: "\<not> current_time \<ge> access_token_expires_at s" by simp
    have g: "get_session st' sid = Some s" using st' s by simp
    have rr: "resp = \<lparr> content = Access_token_body tok, set_cookie = No_cookie \<rparr>"
      using ck assms(3) by (cases resp) simp
    have o: "\<forall>k. k \<noteq> sid \<longrightarrow> sessions st' k = sessions st k"
      and p: "pkce st' = pkce st"
      using st' by simp_all
    from ne g dec st' o p rr show ?thesis by blast
  next
    assume "current_time \<ge> access_token_expires_at s
                  \<and> (\<exists>s' cs. refresh_block cfg V s current_time reply = (Inr s', cs)
                        \<and> return_access_token V (store_session cfg st sid s') s' cs
                            = (resp, st', calls))"
    then obtain s' cs where late: "current_time \<ge> access_token_expires_at s"
      and rb: "refresh_block cfg V s current_time reply = (Inr s', cs)"
      and ret: "return_access_token V (store_session cfg st sid s') s' cs = (resp, st', calls)"
      by blast
    from return_access_token_result [OF ret assms(3)]
    have dec: "decrypt_token V (access_token s') = Some tok"
      and st': "st' = store_session cfg st sid s'"
      and ck: "set_cookie resp = No_cookie"
      by auto
    from refresh_block_Inr [OF rb] obtain tokens where
      t: "reply = Http_response 200 tokens"
      and r: "replace_tokens cfg V s current_time tokens = Inr s'"
      by blast
    from replace_tokens_Inr [OF r] obtain atok rtok where
      a1: "tr_access_token tokens = Some atok" and a2: "tr_refresh_token tokens = Some rtok"
      and a3: "s' = s\<lparr> access_token := encrypt_token V atok,
                refresh_token := encrypt_token V rtok,
                access_token_expires_at :=
                  current_time + real_of_int (case tr_expires_in tokens of
                     None \<Rightarrow> access_token_ttl cfg | Some e \<Rightarrow> e) \<rparr>"
      by blast
    from late have ne: "\<not> current_time < access_token_expires_at s" by simp
    have g: "get_session st' sid = Some s'"
      using st' by (simp add: store_session_def get_session_def)
    have o: "\<forall>k. k \<noteq> sid \<longrightarrow> sessions st' k = sessions st k"
      and p: "pkce st' = pkce st"
      and e: "st' = st\<lparr> sessions := (sessions st)(sid \<mapsto> (session_ttl cfg, s')) \<rparr>"
      using st' by (simp_all add: store_session_def)
    have rr: "resp = \<lparr> content = Access_token_body tok, set_cookie = No_cookie \<rparr>"
      using ck assms(3) by (cases resp) simp
    from t a1 a2 a3 e
    have l: "\<exists>tokens atok rtok. reply = Http_response 200 tokens
                     \<and> tr_access_token tokens = Some atok
                     \<and> tr_refresh_token tokens = Some rtok
                     \<and> s' = s\<lparr> access_token := encrypt_token V atok,
                               refresh_token := encrypt_token V rtok,
                               access_token_expires_at :=
                                 current_time + real_of_int (case tr_expires_in tokens of
                                    None \<Rightarrow> access_token_ttl cfg | Some e \<Rightarrow> e) \<rparr>
                     \<and> st' = st\<lparr> sessions :=
                                    (sessions st)(sid \<mapsto> (session_ttl cfg, s')) \<rparr>"
      by blast
    from ne g dec l o p rr show ?thesis by blast
  qed
  with s have first: "(\<exists>s s'. get_session st sid = Some s \<and> get_session st' sid = Some s'
             \<and> decrypt_token V (access_token s') = Some tok
             \<and> (current_time < access_token_expires_at s \<longrightarrow> s' = s \<and> st' = st)
             \<and> (current_time \<ge> access_token_expires_at s \<longrightarrow>
                  (\<exists>tokens atok rtok. reply = Http_response 200 tokens
                     \<and> tr_access_token tokens = Some atok
                     \<and> tr_refresh_token tokens = Some rtok
                     \<and> s' = s\<lparr> access_token := encrypt_token V atok,
                               refresh_token := encrypt_token V rtok,
                               access_token_expires_at :=
                                 current_time + real_of_int (case tr_expires_in tokens of
                                    None \<Rightarrow> access_token_ttl cfg | Some e \<Rightarrow> e) \<rparr>
                     \<and> st' = st\<lparr> sessions :=
                                    (sessions st)(sid \<mapsto> (session_ttl cfg, s')) \<rparr>)))"
    and rest: "(\<forall>k. k \<noteq> sid \<longrightarrow> sessions st' k = sessions st k)"
      "pkce st' = pkce st"
      "resp = \<lparr> content = Access_token_body tok, set_cookie = No_cookie \<rparr>"
    by blast+
  show ?thesis
    by (intro conjI first rest login_response callback_response logout_response
          session_info_response)
qed

theorem validate_keeps_identifier_witness:
  "cookies example_request (session_cookie_name default_settings) = Some ''sid1''
   \<and> fst (validate_session default_settings example_vault example_redis
        example_request 1120 (Http_response 200 example_tokens))
       = \<lparr> content = Access_token_body ''AT2'', set_cookie = No_cookie \<rparr>
   \<and> sessions (fst (snd (validate_session default_settings example_vault example_redis
        example_request 1120 (Http_response 200 example_tokens))))
       = [''sid1'' \<mapsto> (3600, example_refreshed_session)]
   \<and> pkce (fst (snd (validate_session default_settings example_vault example_redis
        example_request 1120 (Http_response 200 example_tokens)))) = pkce example_redis"
proof -
  have c: "content (fst (validate_session default_settings example_vault example_redis
        example_request 1120 (Http_response 200 example_tokens))) = Access_token_body ''AT2''"
    by (simp add: handler_defs example_defs)
  have k: "cookies example_request (session_cookie_name default_settings) = Some ''sid1''"
    by (simp add: example_defs)
  have o: "validate_session default_settings example_vault example_redis
        example_request 1120 (Http_response 200 example_tokens)
      = (fst (validate_session default_settings example_vault example_redis
           example_request 1120 (Http_response 200 example_tokens)),
         fst (snd (validate_session default_settings example_vault example_redis
           example_request 1120 (Http_response 200 example_tokens))),
         snd (snd (validate_session default_settings example_vault example_redis
           example_request 1120 (Http_response 200 example_tokens))))"
    by simp
  have e: "sessions (fst (snd (validate_session default_settings example_vault example_redis
        example_request 1120 (Http_response 200 example_tokens))))
       = [''sid1'' \<mapsto> (3600, example_refreshed_session)]"
    by (simp add: handler_defs example_defs)
  note th = validate_keeps_identifier [OF k o c]
  from th k e show ?thesis
    by simp
qed

subsection \<open>C9: logout is unconditional\<close>

text \<open>
  C9: for every request that carries a session cookie, whatever the vault does with the
  stored refresh token and whatever comes of the POST to the provider's logout endpoint
  (any status, or a transport failure), Logout deletes the session record, answers with
  the redirect to the front end and clears the cookie: never an error.
\<close>

theorem logout_is_unconditional:
  assumes "cookies req (session_cookie_name cfg) = Some sid" and "sid \<noteq> []"
  shows "fst (logout P cfg V st req reply)
           = \<lparr> content = Redirect (url_quote P (frontend_url cfg)),
               set_cookie = Delete_cookie (session_cookie_name cfg) \<rparr>
       \<and> fst (snd (logout P cfg V st req reply)) = delete_session st sid
       \<and> get_session (fst (snd (logout P cfg V st req reply))) sid = None"
  using assms
  by (simp add: handler_defs Let_def)

theorem logout_is_unconditional_witness:
  "cookies example_request (session_cookie_name default_settings) = Some ''sid1''
   \<and> fst (logout example_platform default_settings example_vault example_redis
        example_request Transport_failure)
       = \<lparr> content = Redirect ''http://localhost:3000'',
           set_cookie = Delete_cookie ''bionicpro_session'' \<rparr>
   \<and> get_session (fst (snd (logout example_platform default_settings example_vault
        example_redis example_request Transport_failure))) ''sid1'' = None"
proof -
  have k: "cookies example_request (session_cookie_name default_settings) = Some ''sid1''"
    by (simp add: example_defs)
  have n: "''sid1'' \<noteq> []"
    by simp
  show ?thesis
    using k logout_is_unconditional
      [OF k n, where V = example_vault and st = example_redis and reply = Transport_failure
         and P = example_platform]
    by (simp add: default_settings_def example_platform_def get_session_def
          delete_session_def)
qed

subsection \<open>C10: the creation time is fixed at Callback\<close>

lemma request_with_cookie:
  "cookies (request_with cfg sid) (session_cookie_name cfg) = Some sid"
  by (simp add: request_with_def)

lemma replace_tokens_three_fields:
  assumes "replace_tokens cfg V s current_time tokens = Inr s'"
  shows "s' = s\<lparr> access_token := access_token s', refresh_token := refresh_token s',
                  access_token_expires_at := access_token_expires_at s' \<rparr>"
  using replace_tokens_Inr [OF assms] by auto

text \<open>Session-Info: either it leaves the store or deletes the key (and sets no cookie),
  or it rotates a record with the same \<^verbatim>\<open>created_at\<close>.\<close>

lemma session_info_outcome:
  assumes "get_session_info P cfg V st (request_with cfg sid) t reply new_sid
             = (resp, st', calls)"
  shows "(set_cookie resp = No_cookie \<and> (\<forall>a v. content resp \<noteq> Session_status a v)
            \<and> (st' = st \<or> st' = delete_session st sid))
       \<or> (\<exists>s s' cs. get_session st sid = Some s \<and> created_at s' = created_at s
            \<and> rotate_session P cfg st sid s' new_sid cs = (resp, st', calls))"
  using assms
  by (auto simp: get_session_info_def get_session_id_from_request_def request_with_def
        plain_def
      dest: refresh_block_frame
      split: option.splits sum.splits if_splits prod.splits)

lemma session_info_created_at:
  assumes inv: "\<forall>ttl s. sessions st sid = Some (ttl, s) \<longrightarrow> created_at s = c"
    and out: "get_session_info P cfg V st (request_with cfg sid) t reply new_sid
                = (resp, st', calls)"
  shows "(set_cookie resp = No_cookie
            \<and> (\<forall>a v. content resp \<noteq> Session_status a v)
            \<and> (\<forall>ttl s. sessions st' sid = Some (ttl, s) \<longrightarrow> created_at s = c))
       \<or> (\<exists>s'. content resp = Session_status True (c + real_of_int (session_ttl cfg))
              \<and> set_cookie resp
                  = Set_cookie \<lparr> ck_key = session_cookie_name cfg, ck_value = new_sid,
                                 ck_httponly = True, ck_secure = True,
                                 ck_samesite = ''lax'', ck_max_age = session_ttl cfg \<rparr>
              \<and> sessions st' new_sid = Some (session_ttl cfg, s')
              \<and> created_at s' = c)"
  using session_info_outcome [OF out]
proof
  assume "set_cookie resp = No_cookie \<and> (\<forall>a v. content resp \<noteq> Session_status a v)
            \<and> (st' = st \<or> st' = delete_session st sid)"
  with inv show ?thesis
    by (auto simp: delete_session_def)
next
  assume "\<exists>s s' cs. get_session st sid = Some s \<and> created_at s' = created_at s
            \<and> rotate_session P cfg st sid s' new_sid cs = (resp, st', calls)"
  then obtain s s' cs where s: "get_session st sid = Some s"
    and f: "created_at s' = created_at s"
    and rot: "rotate_session P cfg st sid s' new_sid cs = (resp, st', calls)"
    by blast
  from inv s have "created_at s = c"
    by (auto simp: get_session_def)
  with f have c: "created_at s' = c" by simp
  from rot rotate_session_store [of P cfg st sid s' new_sid cs]
  have st': "st' = store_session cfg (delete_session st sid) new_sid s'"
    by simp
  then have new: "sessions st' new_sid = Some (session_ttl cfg, s')"
    by (simp add: store_session_def)
  from st' c have old: "\<forall>ttl s. sessions st' sid = Some (ttl, s) \<longrightarrow> created_at s = c"
    by (auto simp: store_session_def delete_session_def split: if_splits)
  from rot rotate_session_response [of P cfg st sid s' new_sid cs]
  have "resp = (if \<not> int_to_float_overflows (session_ttl cfg)
           \<and> fromtimestamp_ok P (created_at s' + real_of_int (session_ttl cfg))
        then \<lparr> content = Session_status True (created_at s' + real_of_int (session_ttl cfg)),
               set_cookie = Set_cookie
                 \<lparr> ck_key = session_cookie_name cfg, ck_value = new_sid,
                   ck_httponly = True, ck_secure = True, ck_samesite = ''lax'',
                   ck_max_age = session_ttl cfg \<rparr> \<rparr>
        else \<lparr> content = Internal_server_error, set_cookie = No_cookie \<rparr>)"
    by simp
  with c new old show ?thesis
    by (auto split: if_splits)
qed

lemma validate_created_at:
  assumes inv: "\<forall>ttl s. sessions st sid = Some (ttl, s) \<longrightarrow> created_at s = c"
    and after: "sessions (fst (snd (validate_session cfg V st (request_with cfg sid) t reply))) sid
             = Some (ttl', s')"
  shows "created_at s' = c"
proof -
  let ?out = "validate_session cfg V st (request_with cfg sid) t reply"
  have "fst (snd ?out) = st \<or> fst (snd ?out) = delete_session st sid
      \<or> (\<exists>s r calls. get_session st sid = Some s
            \<and> refresh_block cfg V s t reply = (Inr r, calls)
            \<and> fst (snd ?out) = store_session cfg st sid r)"
    by (auto simp: validate_session_def get_session_id_from_request_def request_with_def
          return_access_token_store
        split: option.splits sum.splits if_splits prod.splits)
  then consider (same) "fst (snd ?out) = st" | (del) "fst (snd ?out) = delete_session st sid"
    | (ref) s r calls where "get_session st sid = Some s"
        "refresh_block cfg V s t reply = (Inr r, calls)"
        "fst (snd ?out) = store_session cfg st sid r"
    by blast
  then show ?thesis
  proof cases
    case same
    with inv after show ?thesis by simp
  next
    case del
    with after show ?thesis by (simp add: delete_session_def)
  next
    case ref
    from ref(3) after have "s' = r" by (simp add: store_session_def)
    moreover from refresh_block_frame [OF ref(2)] have "created_at r = created_at s" by simp
    moreover from inv ref(1) have "created_at s = c" by (auto simp: get_session_def)
    ultimately show ?thesis by simp
  qed
qed

lemma valid_until_seen_constant:
  assumes "\<forall>ttl s. sessions st sid = Some (ttl, s) \<longrightarrow> created_at s = c"
  shows "\<forall>v \<in> set (valid_until_seen P cfg V st sid steps).
           v = c + real_of_int (session_ttl cfg)"
  using assms
proof (induction steps arbitrary: st sid)
  case Nil
  show ?case by simp
next
  case (Cons step steps)
  show ?case
  proof (cases step)
    case (Validate_step t reply)
    have "\<forall>ttl s. sessions (fst (snd (validate_session cfg V st (request_with cfg sid) t reply))) sid
            = Some (ttl, s) \<longrightarrow> created_at s = c"
      using validate_created_at [OF Cons.prems] by blast
    from Cons.IH [OF this] Validate_step show ?thesis by simp
  next
    case (Session_info_step t reply new_sid)
    obtain resp st' calls where
      out: "get_session_info P cfg V st (request_with cfg sid) t reply new_sid
              = (resp, st', calls)"
      by (cases "get_session_info P cfg V st (request_with cfg sid) t reply new_sid") auto
    from session_info_created_at [OF Cons.prems out]
    show ?thesis
    proof
      assume f: "set_cookie resp = No_cookie
            \<and> (\<forall>a v. content resp \<noteq> Session_status a v)
            \<and> (\<forall>ttl s. sessions st' sid = Some (ttl, s) \<longrightarrow> created_at s = c)"
      then have "\<forall>v \<in> set (valid_until_seen P cfg V st' sid steps).
                   v = c + real_of_int (session_ttl cfg)"
        using Cons.IH by blast
      moreover from f
      have "(case content resp of Session_status a v \<Rightarrow> [v] | _ \<Rightarrow> []) = []"
        by (cases "content resp") auto
      ultimately show ?thesis
        using f out Session_info_step by (simp add: Let_def)
    next
      assume "\<exists>s'. content resp = Session_status True (c + real_of_int (session_ttl cfg))
              \<and> set_cookie resp
                  = Set_cookie \<lparr> ck_key = session_cookie_name cfg, ck_value = new_sid,
                                 ck_httponly = True, ck_secure = True,
                                 ck_samesite = ''lax'', ck_max_age = session_ttl cfg \<rparr>
              \<and> sessions st' new_sid = Some (session_ttl cfg, s')
              \<and> created_at s' = c"
      then obtain s' where
        r: "content resp = Session_status True (c + real_of_int (session_ttl cfg))"
        and k: "set_cookie resp
                  = Set_cookie \<lparr> ck_key = session_cookie_name cfg, ck_value = new_sid,
                                 ck_httponly = True, ck_secure = True,
                                 ck_samesite = ''lax'', ck_max_age = session_ttl cfg \<rparr>"
        and n: "sessions st' new_sid = Some (session_ttl cfg, s')" and c: "created_at s' = c"
        by blast
      from n c have "\<forall>ttl s. sessions st' new_sid = Some (ttl, s) \<longrightarrow> created_at s = c"
        by simp
      then have "\<forall>v \<in> set (valid_until_seen P cfg V st' new_sid steps).
                   v = c + real_of_int (session_ttl cfg)"
        using Cons.IH by blast
      with r k out Session_info_step show ?thesis
        by (simp add: Let_def)
    qed
  qed
qed

lemma callback_created_at:
  "set_cookie (fst (callback P cfg V st code state reply session_id t1 t2)) \<noteq> No_cookie \<longrightarrow>
     map_option (created_at \<circ> snd)
       (sessions (fst (snd (callback P cfg V st code state reply session_id t1 t2))) session_id)
     = Some t2"
  by (simp add: callback_def get_keycloak_token_def raise_exn_def plain_def
        set_session_cookie_def store_session_def Let_def redirect_response_def
      split: option.splits sum.splits http_result.splits exn.splits)

text \<open>
  C10: Callback, where it creates a session, sets \<^verbatim>\<open>created_at\<close> to its clock reading.
  For every stored session: the refresh assignments change the two encrypted tokens and
  \<^verbatim>\<open>access_token_expires_at\<close> and nothing else; whatever Validate leaves under the
  identifier has the same \<^verbatim>\<open>created_at\<close>; a successful Session-Info answers
  \<open>created_at + session_ttl\<close> and stores, under the new identifier and with the full
  \<^verbatim>\<open>session_ttl\<close> as time-to-live, a record with the same \<^verbatim>\<open>created_at\<close>. So along
  any sequence of Validate and Session-Info requests of a browser that follows its
  cookie, every \<^verbatim>\<open>session_valid_until\<close> it is given is that one value.
\<close>

theorem created_at_never_modified:
  assumes "sessions st sid = Some (ttl, s)"
  shows "(set_cookie (fst (callback P cfg V st0 code state reply0 session_id t1 t2)) \<noteq> No_cookie
          \<longrightarrow> map_option (created_at \<circ> snd)
                (sessions (fst (snd (callback P cfg V st0 code state reply0 session_id t1 t2)))
                   session_id) = Some t2)
       \<and> (\<forall>tokens s'. replace_tokens cfg V s t tokens = Inr s' \<longrightarrow>
            s' = s\<lparr> access_token := access_token s', refresh_token := refresh_token s',
                      access_token_expires_at := access_token_expires_at s' \<rparr>)
       \<and> (\<forall>ttl' s'. sessions (fst (snd (validate_session cfg V st (request_with cfg sid) t reply))) sid
              = Some (ttl', s') \<longrightarrow> created_at s' = created_at s)
       \<and> (\<forall>a v. content (fst (get_session_info P cfg V st (request_with cfg sid) t reply new_sid))
              = Session_status a v \<longrightarrow>
            v = created_at s + real_of_int (session_ttl cfg)
            \<and> (\<exists>s'. sessions (fst (snd (get_session_info P cfg V st (request_with cfg sid) t
                         reply new_sid))) new_sid = Some (session_ttl cfg, s')
                  \<and> created_at s' = created_at s))
       \<and> (\<forall>v \<in> set (valid_until_seen P cfg V st sid steps).
            v = created_at s + real_of_int (session_ttl cfg))"
proof -
  have inv: "\<forall>ttl' s'. sessions st sid = Some (ttl', s') \<longrightarrow> created_at s' = created_at s"
    using assms by simp
  have a: "\<forall>tokens s'. replace_tokens cfg V s t tokens = Inr s' \<longrightarrow>
            s' = s\<lparr> access_token := access_token s', refresh_token := refresh_token s',
                      access_token_expires_at := access_token_expires_at s' \<rparr>"
    using replace_tokens_three_fields by blast
  have b: "\<forall>ttl' s'. sessions (fst (snd (validate_session cfg V st (request_with cfg sid) t reply))) sid
              = Some (ttl', s') \<longrightarrow> created_at s' = created_at s"
    using validate_created_at [OF inv] by blast
  obtain resp st' calls where
    out: "get_session_info P cfg V st (request_with cfg sid) t reply new_sid
            = (resp, st', calls)"
    by (cases "get_session_info P cfg V st (request_with cfg sid) t reply new_sid") auto
  have c: "\<forall>a v. content (fst (get_session_info P cfg V st (request_with cfg sid) t reply new_sid))
              = Session_status a v \<longrightarrow>
            v = created_at s + real_of_int (session_ttl cfg)
            \<and> (\<exists>s'. sessions (fst (snd (get_session_info P cfg V st (request_with cfg sid) t
                         reply new_sid))) new_sid = Some (session_ttl cfg, s')
                  \<and> created_at s' = created_at s)"
    using session_info_created_at [OF inv out] out
    by auto
  have d: "\<forall>v \<in> set (valid_until_seen P cfg V st sid steps).
            v = created_at s + real_of_int (session_ttl cfg)"
    using valid_until_seen_constant [OF inv] by blast
  note z = callback_created_at [of P cfg V st0 code state reply0 session_id t1 t2]
  from z a b c d show ?thesis by blast
qed

theorem created_at_never_modified_witness:
  "sessions example_redis ''sid1'' = Some (3600, example_session)
   \<and> valid_until_seen example_platform default_settings example_vault example_redis ''sid1''
        [Session_info_step 1100 Transport_failure ''sid2'',
         Validate_step 1120 (Http_response 200 example_tokens),
         Session_info_step 1300 (Http_response 200 example_tokens) ''sid3''] = [4600, 4600]
   \<and> set (valid_until_seen example_platform default_settings example_vault example_redis
        ''sid1''
        [Session_info_step 1100 Transport_failure ''sid2'',
         Validate_step 1120 (Http_response 200 example_tokens),
         Session_info_step 1300 (Http_response 200 example_tokens) ''sid3''])
       \<subseteq> {created_at example_session + real_of_int (session_ttl default_settings)}"
proof -
  have k: "sessions example_redis ''sid1'' = Some (3600, example_session)"
    by (simp add: example_redis_def)
  have e: "valid_until_seen example_platform default_settings example_vault example_redis
        ''sid1''
        [Session_info_step 1100 Transport_failure ''sid2'',
         Validate_step 1120 (Http_response 200 example_tokens),
         Session_info_step 1300 (Http_response 200 example_tokens) ''sid3''] = [4600, 4600]"
    by (simp add: handler_defs example_defs request_with_def Let_def)
  from created_at_never_modified
    [OF k, where cfg = default_settings and V = example_vault and P = example_platform
      and steps = "[Session_info_step 1100 Transport_failure ''sid2'',
         Validate_step 1120 (Http_response 200 example_tokens),
         Session_info_step 1300 (Http_response 200 example_tokens) ''sid3'']"]
  have "\<forall>v \<in> set (valid_until_seen example_platform default_settings example_vault
        example_redis ''sid1''
        [Session_info_step 1100 Transport_failure ''sid2'',
         Validate_step 1120 (Http_response 200 example_tokens),
         Session_info_step 1300 (Http_response 200 example_tokens) ''sid3'']).
          v = created_at example_session + real_of_int (session_ttl default_settings)"
    by blast
  then have "set (valid_until_seen example_platform default_settings example_vault
        example_redis ''sid1''
        [Session_info_step 1100 Transport_failure ''sid2'',
         Validate_step 1120 (Http_response 200 example_tokens),
         Session_info_step 1300 (Http_response 200 example_tokens) ''sid3''])
       \<subseteq> {created_at example_session + real_of_int (session_ttl default_settings)}"
    by blast
  with k e show ?thesis by blast
qed

end
